theory Spec2Isabelle
  imports Main
begin

section \<open>The btc node-management script (btc.py)\<close>

text \<open>
  The script is a command dispatcher: it probes the host, reads a small settings
  file, and then issues shell commands. The model keeps the script's own control flow
  and its string formatting, and takes everything the script asks of the outside world
  (subprocess output, socket connects, glob results, the file tree) from a state record.

  Python strings are modelled as \<open>string\<close>; characters are the code points below 256.
  Paths are joined as \<open>posixpath\<close> does.
\<close>

subsection \<open>Python string helpers\<close>

definition isspace :: "char \<Rightarrow> bool" where
  \<comment> \<open>\<open>str.isspace\<close> on the code points below 256\<close>
  "isspace c = ((of_char c :: nat) \<in> {9, 10, 11, 12, 13, 28, 29, 30, 31, 32, 133, 160})"

definition strip :: "string \<Rightarrow> string" where
  "strip x = rev (dropWhile isspace (rev (dropWhile isspace x)))"

definition startswith :: "string \<Rightarrow> string \<Rightarrow> bool" where
  "startswith x p = (take (length p) x = p)"

fun join_str :: "string \<Rightarrow> string list \<Rightarrow> string" where
  "join_str sep [] = []"
| "join_str sep [x] = x"
| "join_str sep (x # y # ys) = x @ sep @ join_str sep (y # ys)"

text \<open>
  \<open>str.replace(old, new)\<close> for a non-empty \<open>old\<close>: every non-overlapping occurrence,
  from the left. The counter is the number of characters of a matched occurrence that
  are still to be skipped.
\<close>

fun replace_aux :: "string \<Rightarrow> string \<Rightarrow> nat \<Rightarrow> string \<Rightarrow> string" where
  "replace_aux old new k [] = []"
| "replace_aux old new (Suc k) (c # cs) = replace_aux old new k cs"
| "replace_aux old new 0 (c # cs) =
     (if old \<noteq> [] \<and> startswith (c # cs) old
      then new @ replace_aux old new (length old - 1) cs
      else c # replace_aux old new 0 cs)"

definition replace :: "string \<Rightarrow> string \<Rightarrow> string \<Rightarrow> string" where
  "replace x old new = replace_aux old new 0 x"

fun split_on :: "char \<Rightarrow> string \<Rightarrow> string \<Rightarrow> string list" where
  \<comment> \<open>\<open>str.split(sep)\<close> for a one-character separator; the second argument is the piece being read\<close>
  "split_on sep acc [] = [acc]"
| "split_on sep acc (c # cs) =
     (if c = sep then acc # split_on sep [] cs else split_on sep (acc @ [c]) cs)"

definition split_nl :: "string \<Rightarrow> string list" where
  "split_nl x = split_on (CHR 0x0A) [] x"

definition digit_char :: "nat \<Rightarrow> char" where
  "digit_char d = (''0123456789'') ! (d mod 10)"

fun digits_fuel :: "nat \<Rightarrow> nat \<Rightarrow> string" where
  \<comment> \<open>decimal digits of \<open>n\<close>; the first argument bounds the number of digits\<close>
  "digits_fuel 0 n = []"
| "digits_fuel (Suc f) n =
     (if n < 10 then [digit_char n] else digits_fuel f (n div 10) @ [digit_char (n mod 10)])"

definition str_of_nat :: "nat \<Rightarrow> string" where
  "str_of_nat n = digits_fuel (Suc n) n"

definition str_of_int :: "int \<Rightarrow> string" where
  "str_of_int i = (if i < 0 then ''-'' @ str_of_nat (nat (- i)) else str_of_nat (nat i))"

definition fmt_opt :: "string option \<Rightarrow> string" where
  \<comment> \<open>\<open>"{}".format(x)\<close> for a value that is a string or \<open>None\<close>\<close>
  "fmt_opt x = (case x of None \<Rightarrow> ''None'' | Some v \<Rightarrow> v)"

definition os_path_join :: "string \<Rightarrow> string \<Rightarrow> string" where
  \<comment> \<open>\<open>posixpath.join(a, b)\<close>\<close>
  "os_path_join a b =
     (if startswith b ''/'' then b
      else if a = [] \<or> last a = CHR ''/'' then a @ b
      else a @ ''/'' @ b)"

definition os_path_join3 :: "string \<Rightarrow> string \<Rightarrow> string \<Rightarrow> string" where
  "os_path_join3 a b c = os_path_join (os_path_join a b) c"

subsection \<open>Python's repr of a string (used where a list is formatted)\<close>

definition hex_digit :: "nat \<Rightarrow> char" where
  "hex_digit d = (''0123456789abcdef'') ! (d mod 16)"

definition printable :: "char \<Rightarrow> bool" where
  \<comment> \<open>\<open>str.isprintable\<close> on the code points below 256\<close>
  "printable c = (let n = (of_char c :: nat) in
     (32 \<le> n \<and> n < 127) \<or> (161 \<le> n \<and> n \<noteq> 173))"

definition repr_char :: "char \<Rightarrow> char \<Rightarrow> string" where
  "repr_char q c =
     (if c = q \<or> c = CHR 0x5C then [CHR 0x5C, c]
      else if c = CHR 0x09 then [CHR 0x5C, CHR ''t'']
      else if c = CHR 0x0A then [CHR 0x5C, CHR ''n'']
      else if c = CHR 0x0D then [CHR 0x5C, CHR ''r'']
      else if printable c then [c]
      else [CHR 0x5C, CHR ''x'', hex_digit (of_char c div 16), hex_digit (of_char c)])"

definition py_repr :: "string \<Rightarrow> string" where
  "py_repr x =
     (let q = (if CHR 0x27 \<in> set x \<and> CHR 0x22 \<notin> set x then CHR 0x22 else CHR 0x27)
      in [q] @ concat (map (repr_char q) x) @ [q])"

definition py_repr_list :: "string list \<Rightarrow> string" where
  "py_repr_list xs = ''['' @ join_str '', '' (map py_repr xs) @ '']''"

subsection \<open>Constants of the script\<close>

definition PROJECT_NAME :: string where "PROJECT_NAME = ''bitcoinprotocols''"
definition BTC_CONFIG_FILE :: string where "BTC_CONFIG_FILE = ''.btc.config''"

definition REPO_BASE_HTTPS :: "string \<Rightarrow> string" where
  "REPO_BASE_HTTPS repo = ''https://github.com/CounterpartyXCP/'' @ repo @ ''.git''"
definition REPO_BASE_SSH :: "string \<Rightarrow> string" where
  "REPO_BASE_SSH repo = ''git@github.com:CounterpartyXCP/'' @ repo @ ''.git''"

definition REPOS_BASE :: "string list" where
  "REPOS_BASE = [''counterparty-lib'', ''counterparty-cli'', ''addrindexrs'', ''xcp-proxy'', ''http-addrindexrs'']"
definition REPOS_FULL :: "string list" where
  "REPOS_FULL = REPOS_BASE"

definition HOST_PORTS_USED :: "string \<Rightarrow> nat list option" where
  "HOST_PORTS_USED k =
     (if k = ''base'' then Some [8332, 18332, 8432, 18432, 4000, 14000, 8097, 18097, 8098, 18098]
      else if k = ''base_extbtc'' then Some [8432, 18432, 4000, 14000, 8097, 18097, 8098, 18098]
      else if k = ''full'' then Some [8332, 18332, 8432, 18432, 4000, 14000, 8097, 18097, 8098, 18098, 80, 443]
      else None)"

definition VOLUMES_USED :: "string \<Rightarrow> string list option" where
  "VOLUMES_USED k =
     (if k = ''base'' then Some [''bitcoin-data'', ''addrindexrs-data'', ''counterparty-data'']
      else if k = ''base_extbtc'' then Some [''addrindexrs-data'', ''counterparty-data'']
      else if k = ''full'' then Some [''bitcoin-data'', ''addrindexrs-data'', ''counterparty-data'']
      else None)"

definition UPDATE_CHOICES :: "string list" where
  "UPDATE_CHOICES = [''addrindexrs'', ''addrindexrs-testnet'',
     ''counterparty'', ''counterparty-testnet'', ''xcp-proxy'', ''xcp-proxy-testnet'',
     ''http-addrindexrs'', ''http-addrindexrs-testnet'']"
definition REPARSE_CHOICES :: "string list" where
  "REPARSE_CHOICES = [''counterparty'', ''counterparty-testnet'']"
definition ROLLBACK_CHOICES :: "string list" where
  "ROLLBACK_CHOICES = [''counterparty'', ''counterparty-testnet'']"
definition VALIDATE_CHOICES :: "string list" where
  "VALIDATE_CHOICES = [''counterparty'', ''counterparty-testnet'']"
definition VACUUM_CHOICES :: "string list" where
  "VACUUM_CHOICES = [''counterparty'', ''counterparty-testnet'']"
definition SHELL_CHOICES :: "string list" where
  "SHELL_CHOICES = UPDATE_CHOICES @
     [''mongodb'', ''redis'', ''bitcoin'', ''bitcoin-testnet'', ''addrindexrs'', ''addrindexrs-testnet'']"

definition CONFIGCHECK_FILES_BASE_EXTERNAL_BITCOIN :: "(string \<times> string \<times> string) list" where
  "CONFIGCHECK_FILES_BASE_EXTERNAL_BITCOIN =
     [(''addrindexrs'', ''addrindexrs.env.default'', ''addrindexrs.env''),
      (''addrindexrs'', ''addrindexrs.testnet.env.default'', ''addrindexrs.testnet.env''),
      (''counterparty'', ''client.conf.default'', ''client.conf''),
      (''counterparty'', ''client.testnet.conf.default'', ''client.testnet.conf''),
      (''counterparty'', ''server.conf.default'', ''server.conf''),
      (''counterparty'', ''server.testnet.conf.default'', ''server.testnet.conf'')]"

definition CONFIGCHECK_FILES_BASE :: "(string \<times> string \<times> string) list" where
  "CONFIGCHECK_FILES_BASE =
     [(''bitcoin'', ''bitcoin.conf.default'', ''bitcoin.conf''),
      (''bitcoin'', ''bitcoin.testnet.conf.default'', ''bitcoin.testnet.conf''),
      (''addrindexrs'', ''addrindexrs.env.default'', ''addrindexrs.env''),
      (''addrindexrs'', ''addrindexrs.testnet.env.default'', ''addrindexrs.testnet.env''),
      (''counterparty'', ''client.conf.default'', ''client.conf''),
      (''counterparty'', ''client.testnet.conf.default'', ''client.testnet.conf''),
      (''counterparty'', ''server.conf.default'', ''server.conf''),
      (''counterparty'', ''server.testnet.conf.default'', ''server.testnet.conf'')]"

definition CONFIGCHECK_FILES :: "string \<Rightarrow> (string \<times> string \<times> string) list option" where
  "CONFIGCHECK_FILES k =
     (if k = ''base_extbtc'' then Some CONFIGCHECK_FILES_BASE_EXTERNAL_BITCOIN
      else if k = ''base'' then Some CONFIGCHECK_FILES_BASE
      else if k = ''full'' then Some CONFIGCHECK_FILES_BASE
      else None)"

subsection \<open>The host, the file tree and the script's globals\<close>

record fdata =
  mtime :: string
  flines :: "string list"
  st_uid :: nat
  st_gid :: nat

datatype node = File fdata | Dir | Link string

text \<open>
  What the script does to the outside world, in order: text printed, commands whose
  output is read (\<open>subprocess.check_output\<close>), connection attempts, and commands run
  through \<open>os.system\<close>. Changes to the settings file and to the file tree are changes of
  the state.
\<close>

datatype action =
    Print string
  | CheckOutput string
  | Connect string nat
  | System string

datatype outcome = Exit nat | Raised string

record state =
  os_name :: string
  euid :: nat
  egid :: nat
  SCRIPTDIR :: string
  CURDIR :: string
  hostname :: string
  check_output :: "string \<Rightarrow> string option"
  connect_ex :: "string \<Rightarrow> nat \<Rightarrow> int"
  glob :: "string \<Rightarrow> string list"
  json_mountpoint :: "string \<Rightarrow> string option"
  difflib_hunks :: "string list \<Rightarrow> string list \<Rightarrow> string list"
  settings :: "(string \<times> string) option"
  fs :: "string \<rightharpoonup> node"
  environ :: "string \<rightharpoonup> string"
  IS_WINDOWS :: "bool option"
  SESSION_USER :: "string option"
  SUDO_CMD :: "string option"
  DOCKER_CONFIG_PATH :: "string option"

text \<open>
  \<^item> \<open>check_output s cmd\<close> is the standard output of the shell command, \<open>None\<close> when it
    exits non-zero (\<open>CalledProcessError\<close>); \<open>connect_ex s host port\<close> is the error code of
    a TCP connect; \<open>glob s pattern\<close> is what \<open>glob\<close> yields for the pattern.
  \<^item> \<open>json_mountpoint s out\<close> is \<open>json.loads(out)[0]['Mountpoint']\<close>, \<open>None\<close> when that
    raises; \<open>difflib_hunks s a b\<close> are the hunk lines \<open>difflib\<close> emits for two different
    line lists. Both are library results the script only passes on.
  \<^item> \<open>settings s\<close> is the settings file \<open>.btc.config\<close>: its branch and its config, \<open>None\<close>
    when the file is absent.
  \<^item> \<open>fs s\<close> is the file tree. A symbolic link is followed one step.
  \<^item> The last four fields are the module globals set by \<open>setup_env\<close> and \<open>main\<close>.
\<close>

definition target :: "(string \<rightharpoonup> node) \<Rightarrow> string \<Rightarrow> string" where
  "target f p = (case f p of Some (Link t) \<Rightarrow> t | _ \<Rightarrow> p)"

definition path_exists :: "(string \<rightharpoonup> node) \<Rightarrow> string \<Rightarrow> bool" where
  "path_exists f p = (f (target f p) \<noteq> None)"

definition path_lexists :: "(string \<rightharpoonup> node) \<Rightarrow> string \<Rightarrow> bool" where
  "path_lexists f p = (f p \<noteq> None)"

subsection \<open>Programs: a trace, an outcome, a state\<close>

type_synonym 'a m = "state \<Rightarrow> action list \<times> (outcome + 'a) \<times> state"

definition ret :: "'a \<Rightarrow> 'a m" where
  "ret a s = ([], Inr a, s)"

definition bnd :: "'a m \<Rightarrow> ('a \<Rightarrow> 'b m) \<Rightarrow> 'b m" where
  "bnd p f s =
     (case p s of
        (t1, Inl e, s1) \<Rightarrow> (t1, Inl e, s1)
      | (t1, Inr a, s1) \<Rightarrow> (case f a s1 of (t2, r, s2) \<Rightarrow> (t1 @ t2, r, s2)))"

definition seq :: "unit m \<Rightarrow> 'b m \<Rightarrow> 'b m" where
  "seq p q = bnd p (\<lambda>_. q)"

fun steps :: "unit m list \<Rightarrow> unit m" where
  "steps [] = ret ()"
| "steps (p # ps) = seq p (steps ps)"

fun for_each :: "'a list \<Rightarrow> ('a \<Rightarrow> unit m) \<Rightarrow> unit m" where
  "for_each [] body = ret ()"
| "for_each (x # xs) body = seq (body x) (for_each xs body)"

definition reads :: "(state \<Rightarrow> 'a) \<Rightarrow> 'a m" where
  "reads g s = ([], Inr (g s), s)"

definition modify :: "(state \<Rightarrow> state) \<Rightarrow> unit m" where
  "modify g s = ([], Inr (), g s)"

definition emit :: "action \<Rightarrow> unit m" where
  "emit a s = ([a], Inr (), s)"

definition py_print :: "string \<Rightarrow> unit m" where
  "py_print x = emit (Print x)"

definition sys_exit :: "nat \<Rightarrow> 'a m" where
  "sys_exit n s = ([], Inl (Exit n), s)"

definition raise :: "string \<Rightarrow> 'a m" where
  "raise e s = ([], Inl (Raised e), s)"

definition os_system :: "string \<Rightarrow> unit m" where
  \<comment> \<open>the exit status is returned by \<open>os.system\<close> and inspected by no caller\<close>
  "os_system cmd = emit (System cmd)"

definition subprocess_check_output :: "string \<Rightarrow> string m" where
  "subprocess_check_output cmd s =
     (case check_output s cmd of
        None \<Rightarrow> ([CheckOutput cmd], Inl (Raised ''CalledProcessError''), s)
      | Some out \<Rightarrow> ([CheckOutput cmd], Inr out, s))"

definition trace_of :: "action list \<times> (outcome + 'a) \<times> state \<Rightarrow> action list" where
  "trace_of r = fst r"

definition outcome_of :: "action list \<times> (outcome + 'a) \<times> state \<Rightarrow> outcome + 'a" where
  "outcome_of r = fst (snd r)"

definition state_of :: "action list \<times> (outcome + 'a) \<times> state \<Rightarrow> state" where
  "state_of r = snd (snd r)"

definition exit_code :: "outcome + 'a \<Rightarrow> nat" where
  \<comment> \<open>the process exit status: an uncaught exception ends the interpreter with status 1\<close>
  "exit_code r = (case r of Inr _ \<Rightarrow> 0 | Inl (Exit n) \<Rightarrow> n | Inl (Raised _) \<Rightarrow> 1)"

subsection \<open>File operations\<close>

definition shutil_copy2 :: "string \<Rightarrow> string \<Rightarrow> unit m" where
  \<comment> \<open>contents and times are copied; the new file belongs to the running user\<close>
  "shutil_copy2 src dst =
     bnd (reads id) (\<lambda>s.
       case fs s (target (fs s) src) of
         Some (File d) \<Rightarrow>
           (let q = target (fs s) dst in
            case fs s q of
              Some Dir \<Rightarrow> raise ''IsADirectoryError''
            | Some (Link _) \<Rightarrow> raise ''OSError''
            | _ \<Rightarrow> modify (\<lambda>s. s\<lparr>fs := (fs s)(q \<mapsto> File (d\<lparr>st_uid := euid s, st_gid := egid s\<rparr>))\<rparr>))
       | Some Dir \<Rightarrow> raise ''IsADirectoryError''
       | _ \<Rightarrow> raise ''FileNotFoundError'')"

definition os_stat :: "string \<Rightarrow> node m" where
  "os_stat p =
     bnd (reads fs) (\<lambda>f.
       case f (target f p) of None \<Rightarrow> raise ''FileNotFoundError'' | Some n \<Rightarrow> ret n)"

definition node_uid :: "node \<Rightarrow> nat" where
  "node_uid n = (case n of File d \<Rightarrow> st_uid d | _ \<Rightarrow> 0)"

definition node_gid :: "node \<Rightarrow> nat" where
  "node_gid n = (case n of File d \<Rightarrow> st_gid d | _ \<Rightarrow> 0)"

definition os_chown :: "string \<Rightarrow> nat \<Rightarrow> nat \<Rightarrow> unit m" where
  "os_chown p u g =
     bnd (reads fs) (\<lambda>f.
       let q = target f p in
       case f q of
         None \<Rightarrow> raise ''FileNotFoundError''
       | Some (File d) \<Rightarrow> modify (\<lambda>s. s\<lparr>fs := (fs s)(q \<mapsto> File (d\<lparr>st_uid := u, st_gid := g\<rparr>))\<rparr>)
       | Some _ \<Rightarrow> ret ())"

definition os_mkdir :: "string \<Rightarrow> unit m" where
  "os_mkdir p =
     bnd (reads fs) (\<lambda>f.
       if path_lexists f p then raise ''FileExistsError''
       else modify (\<lambda>s. s\<lparr>fs := (fs s)(p \<mapsto> Dir)\<rparr>))"

definition os_symlink :: "string \<Rightarrow> string \<Rightarrow> unit m" where
  "os_symlink src dst =
     bnd (reads fs) (\<lambda>f.
       if path_lexists f dst then raise ''FileExistsError''
       else modify (\<lambda>s. s\<lparr>fs := (fs s)(dst \<mapsto> Link src)\<rparr>))"

definition shutil_rmtree :: "string \<Rightarrow> unit m" where
  "shutil_rmtree p =
     bnd (reads fs) (\<lambda>f.
       case f p of
         Some Dir \<Rightarrow> modify (\<lambda>s. s\<lparr>fs := (\<lambda>x. if x = p \<or> startswith x (p @ ''/'') then None else fs s x)\<rparr>)
       | Some _ \<Rightarrow> raise ''NotADirectoryError''
       | None \<Rightarrow> raise ''FileNotFoundError'')"

subsection \<open>The script's functions\<close>

definition write_config :: "string \<times> string \<Rightarrow> unit m" where
  \<comment> \<open>the argument is the section \<open>Default\<close>: its branch and its config\<close>
  "write_config config = modify (\<lambda>s. s\<lparr>settings := Some config\<rparr>)"

definition run_compose_cmd :: "string \<Rightarrow> unit m" where
  "run_compose_cmd cmd =
     bnd (reads id) (\<lambda>s.
       case DOCKER_CONFIG_PATH s of
         None \<Rightarrow> raise ''AssertionError''
       | Some path \<Rightarrow>
           if path = [] then raise ''AssertionError''
           else (case environ s ''BTC_RELEASE_TAG'' of
                   None \<Rightarrow> raise ''KeyError''
                 | Some tag \<Rightarrow>
                     if tag = [] then raise ''AssertionError''
                     else os_system (fmt_opt (SUDO_CMD s) @ '' docker-compose -f '' @ path
                            @ '' -p '' @ PROJECT_NAME @ '' '' @ cmd)))"

definition is_port_open :: "nat \<Rightarrow> bool m" where
  "is_port_open port s =
     ([Connect ''127.0.0.1'' port], Inr (connect_ex s ''127.0.0.1'' port = 0), s)"

definition setup_env :: "unit m" where
  \<open>setup_env =
     bnd (reads os_name) (\<lambda>name.
     bnd (if name \<noteq> ''nt'' then
            seq (modify (\<lambda>s. s\<lparr>IS_WINDOWS := Some False\<rparr>))
           (bnd (subprocess_check_output ''logname'') (\<lambda>out.
            seq (modify (\<lambda>s. s\<lparr>SESSION_USER := Some (strip out)\<rparr>))
           (seq (if strip out = [] then raise ''AssertionError'' else ret ())
           (seq (modify (\<lambda>s. s\<lparr>SUDO_CMD := Some ''sudo -E''\<rparr>))
           (bnd (subprocess_check_output ''sudo -n uptime 2>&1|grep "load"|wc -l'') (\<lambda>out2.
            ret (strip out2 = ''1'')))))))
          else
            seq (modify (\<lambda>s. s\<lparr>IS_WINDOWS := Some True, SESSION_USER := None, SUDO_CMD := Some []\<rparr>))
                (ret True))
       (\<lambda>IS_SUDO_ACTIVE.
     bnd (reads euid) (\<lambda>uid.
     seq (if name \<noteq> ''nt'' \<and> uid = 0 then
            seq (py_print ''Please run this script as a non-root user.'') (sys_exit 1)
          else ret ())
         (if \<not> IS_SUDO_ACTIVE then
            seq (py_print ''This script requires root access (via sudo) to run. Please enter your sudo password below.'')
                (os_system (''bash -c 'sudo whoami > /dev/null'' @ [CHR 0x27]))
          else ret ()))))\<close>

definition is_container_running :: "string \<Rightarrow> bool \<Rightarrow> bool option m" where
  \<open>is_container_running service abort_on_not_exist =
     bnd (reads id) (\<lambda>s.
       let cmd = fmt_opt (SUDO_CMD s) @ '' docker inspect --format="{{ .State.Running }}" bitcoinprotocols_''
                 @ service @ ''_1''
       in case check_output s cmd of
            Some out \<Rightarrow> seq (emit (CheckOutput cmd)) (ret (Some (strip out = ''true'')))
          | None \<Rightarrow>
              seq (emit (CheckOutput cmd))
                  (if abort_on_not_exist then
                     seq (py_print (''Container '' @ service @ '' doesn't seem to exist'' @ [CHR 0x27]))
                         (sys_exit 1)
                   else ret None))\<close>

definition get_docker_volume_path :: "string \<Rightarrow> string option m" where
  "get_docker_volume_path volume_name =
     bnd (reads id) (\<lambda>s.
       let cmd = fmt_opt (SUDO_CMD s) @ '' docker volume inspect '' @ volume_name
       in case check_output s cmd of
            None \<Rightarrow> seq (emit (CheckOutput cmd)) (ret None)
          | Some out \<Rightarrow>
              seq (emit (CheckOutput cmd))
                  (case json_mountpoint s (strip out) of
                     None \<Rightarrow> raise ''ValueError''
                   | Some mp \<Rightarrow> ret (Some mp)))"

subsection \<open>configcheck\<close>

definition linejunk_filter :: "string \<Rightarrow> bool" where
  "linejunk_filter x = (length (strip x) > 0 \<and> take 1 (strip x) \<noteq> ''#'')"

definition unified_diff ::
  "state \<Rightarrow> string list \<Rightarrow> string list \<Rightarrow> string \<Rightarrow> string \<Rightarrow> string \<Rightarrow> string \<Rightarrow> string list" where
  \<comment> \<open>\<open>difflib.unified_diff\<close>: nothing for equal inputs, else the two header lines and the hunks\<close>
  "unified_diff s a b fromfile tofile fromfiledate tofiledate =
     (if a = b then []
      else [''--- '' @ fromfile @ (if fromfiledate = [] then [] else [CHR 0x09] @ fromfiledate) @ [CHR 0x0A],
            ''+++ '' @ tofile @ (if tofiledate = [] then [] else [CHR 0x09] @ tofiledate) @ [CHR 0x0A]]
           @ difflib_hunks s a b)"

definition check_pair :: "string \<times> string \<times> string \<Rightarrow> unit m" where
  \<comment> \<open>the body of the loop of \<open>config_check\<close>\<close>
  "check_pair spec =
     (case spec of (dirname, fromfile, tofile) \<Rightarrow>
      bnd (reads id) (\<lambda>s.
        let fromfilepath = os_path_join (os_path_join3 (SCRIPTDIR s) ''config'' dirname) fromfile;
            tofilepath = os_path_join (os_path_join3 (SCRIPTDIR s) ''config'' dirname) tofile
        in case fs s (target (fs s) fromfilepath) of
             None \<Rightarrow> py_print (''Config file not found at '' @ fromfilepath)
           | Some fromnode \<Rightarrow>
              (case fs s (target (fs s) tofilepath) of
                 None \<Rightarrow> py_print (''Config file not found at '' @ tofilepath)
               | Some tonode \<Rightarrow>
                  (case fromnode of
                     File fd \<Rightarrow>
                       (case tonode of
                          File td \<Rightarrow>
                            (let fromlines = filter linejunk_filter (flines fd);
                                 tolines = filter linejunk_filter (flines td);
                                 diff_string = concat (unified_diff s fromlines tolines
                                                 fromfile tofile (mtime fd) (mtime td))
                             in if length diff_string \<noteq> 0 then
                                  seq (py_print (''Found these differences in the file '' @ tofilepath
                                                 @ '':'' @ [CHR 0x0A]))
                                      (py_print diff_string)
                                else py_print (os_path_join dirname tofile @ '': OK''))
                        | _ \<Rightarrow> raise ''IsADirectoryError'')
                   | _ \<Rightarrow> raise ''IsADirectoryError''))))"

definition config_check :: "string \<Rightarrow> unit m" where
  "config_check build_config =
     (case CONFIGCHECK_FILES build_config of
        None \<Rightarrow> raise ''KeyError''
      | Some pairs \<Rightarrow> for_each pairs check_pair)"

subsection \<open>Arguments\<close>

text \<open>
  The namespace \<open>parse_args\<close> returns, one constructor per sub-command with its
  arguments in the order they are declared. A \<open>services\<close> argument that was left out
  (the parser's default, the empty string) is the empty list: both have length 0, both
  join to the empty string, both differ from \<open>['']\<close>, and iterating either yields nothing.
\<close>

datatype command =
    Install string string bool string bool
  | Uninstall
  | Start "string list"
  | Stop "string list"
  | Restart "string list"
  | Reparse string
  | Rollback string string
  | Validate string
  | Vacuum string
  | Ps
  | Tail "string list" int
  | Logs "string list"
  | Exec string "string list"
  | Shell string
  | Update bool "string list"
  | Rebuild "string list" string bool
  | DockerClean
  | ConfigCheck

record args =
  debug :: bool
  no_pull :: bool
  command :: command

definition choices_ok :: "command \<Rightarrow> bool" where
  "choices_ok c =
     (case c of
        Install config branch _ _ _ \<Rightarrow>
          config \<in> set [''base'', ''base_extbtc'', ''full''] \<and> branch \<in> set [''master'', ''develop'']
      | Reparse service \<Rightarrow> service \<in> set REPARSE_CHOICES
      | Rollback _ service \<Rightarrow> service \<in> set ROLLBACK_CHOICES
      | Validate service \<Rightarrow> service \<in> set VALIDATE_CHOICES
      | Vacuum service \<Rightarrow> service \<in> set VACUUM_CHOICES
      | Exec service _ \<Rightarrow> service \<in> set SHELL_CHOICES
      | Shell service \<Rightarrow> service \<in> set SHELL_CHOICES
      | _ \<Rightarrow> True)"

definition parse_args :: "args \<Rightarrow> args m" where
  \<comment> \<open>the parser ends the process with status 2 when an argument is outside its choices\<close>
  "parse_args a = (if choices_ok (command a) then ret a else sys_exit 2)"

definition mongodb_interface :: "command \<Rightarrow> string" where
  \<comment> \<open>\<open>getattr(args, 'mongodb_interface', "127.0.0.1")\<close>\<close>
  "mongodb_interface c =
     (case c of Install _ _ _ i _ \<Rightarrow> i | Rebuild _ i _ \<Rightarrow> i | _ \<Rightarrow> ''127.0.0.1'')"

definition no_bootstrap :: "command \<Rightarrow> bool" where
  \<comment> \<open>\<open>hasattr(args, "no_bootstrap") and args.no_bootstrap\<close>\<close>
  "no_bootstrap c = (case c of Install _ _ _ _ nb \<Rightarrow> nb | _ \<Rightarrow> False)"

subsection \<open>docker_clean\<close>

definition docker_clean :: "unit m" where
  "docker_clean =
     bnd (reads SUDO_CMD) (\<lambda>sudo.
     bnd (subprocess_check_output (fmt_opt sudo @ '' docker ps -a -q'')) (\<lambda>out1.
     bnd (subprocess_check_output (fmt_opt sudo @ '' docker images -q'')) (\<lambda>out2.
     seq (for_each (split_nl out1) (\<lambda>container.
            if container = [] then ret ()
            else os_system (fmt_opt sudo @ '' docker rm '' @ container)))
    (seq (for_each (split_nl out2) (\<lambda>image.
            if image = [] then ret ()
            else os_system (fmt_opt sudo @ '' docker rmi '' @ image)))
         (sys_exit 1)))))"

subsection \<open>install\<close>

definition check_ports :: "string \<Rightarrow> unit m" where
  "check_ports build_config =
     (case HOST_PORTS_USED build_config of
        None \<Rightarrow> raise ''KeyError''
      | Some ports \<Rightarrow>
          for_each ports (\<lambda>port.
            bnd (is_port_open port) (\<lambda>is_open.
              if is_open then
                seq (py_print (''Cannot install, as it appears a process is already listening on host port ''
                               @ str_of_nat port))
                    (sys_exit 1)
              else ret ())))"

definition clone_repos :: "string \<Rightarrow> string \<Rightarrow> bool \<Rightarrow> unit m" where
  \<open>clone_repos build_config repo_branch use_ssh_uris =
     for_each (if build_config = ''base'' then REPOS_BASE else REPOS_FULL) (\<lambda>repo.
       bnd (reads id) (\<lambda>s.
         let repo_url = (if use_ssh_uris then REPO_BASE_SSH repo else REPO_BASE_HTTPS repo);
             repo_dir = os_path_join3 (SCRIPTDIR s) ''src'' repo
         in if \<not> path_exists (fs s) repo_dir then
              (let git_cmd = ''git clone -b '' @ repo_branch @ '' '' @ repo_url @ '' '' @ repo_dir
               in if IS_WINDOWS s \<noteq> Some True then
                    os_system (fmt_opt (SUDO_CMD s) @ '' -u '' @ fmt_opt (SESSION_USER s)
                               @ '' bash -c "'' @ git_cmd @ ''"'')
                  else os_system git_cmd)
            else ret ()))\<close>

definition copy_default_config :: "string \<Rightarrow> unit m" where
  \<comment> \<open>the body of the loop over the templates\<close>
  "copy_default_config default_config =
     (let active_config = replace default_config ''.default'' [] in
      bnd (reads fs) (\<lambda>f.
        if \<not> path_exists f active_config then
          seq (py_print (''Generating config from defaults at '' @ active_config @ '' ...''))
         (seq (shutil_copy2 default_config active_config)
         (bnd (os_stat default_config) (\<lambda>default_config_stat.
          bnd (reads IS_WINDOWS) (\<lambda>w.
            if w \<noteq> Some True then
              os_chown active_config (node_uid default_config_stat) (node_gid default_config_stat)
            else ret ()))))
        else ret ()))"

definition copy_default_configs :: "unit m" where
  "copy_default_configs =
     bnd (reads id) (\<lambda>s.
       for_each (glob s (os_path_join3 (SCRIPTDIR s) ''config'' ''**/*.default'')) copy_default_config)"

definition link_volumes :: "string \<Rightarrow> unit m" where
  "link_volumes build_config =
     bnd (reads id) (\<lambda>s.
       if IS_WINDOWS s \<noteq> Some True then
         (let data_dir = os_path_join (SCRIPTDIR s) ''data'' in
          seq (if \<not> path_exists (fs s) data_dir then os_mkdir data_dir else ret ())
              (case VOLUMES_USED build_config of
                 None \<Rightarrow> raise ''KeyError''
               | Some volumes \<Rightarrow>
                   for_each volumes (\<lambda>volume.
                     let symlink_path = os_path_join data_dir (replace volume ''-data'' []);
                         volume_name = PROJECT_NAME @ ''_'' @ volume
                     in bnd (get_docker_volume_path volume_name) (\<lambda>mountpoint_path.
                        bnd (reads fs) (\<lambda>f.
                          case mountpoint_path of
                            None \<Rightarrow> ret ()
                          | Some mp \<Rightarrow>
                              if \<not> path_lexists f symlink_path then
                                seq (os_symlink mp symlink_path)
                                    (py_print (''For convenience, symlinking '' @ mp @ '' to '' @ symlink_path))
                              else ret ())))))
       else ret ())"

definition cmd_install :: "bool \<Rightarrow> string \<Rightarrow> string \<Rightarrow> bool \<Rightarrow> bool \<Rightarrow> unit m" where
  "cmd_install config_existed build_config repo_branch use_ssh_uris use_docker_pulls =
     steps [
       if config_existed then
         seq (py_print ''Cannot install, as it appears a configuration already exists. Please run the 'uninstall' command first'')
             (sys_exit 1)
       else ret (),
       check_ports build_config,
       clone_repos build_config repo_branch use_ssh_uris,
       if use_docker_pulls then run_compose_cmd ''pull --ignore-pull-failures''
       else py_print ''skipping docker pull command'',
       copy_default_configs,
       link_volumes build_config,
       run_compose_cmd ''up -d'']"

subsection \<open>exec and shell\<close>

definition is_quote :: "char \<Rightarrow> bool" where
  "is_quote c = (c = CHR 0x27 \<or> c = CHR 0x22)"

definition re_match_quoted :: "string \<Rightarrow> bool" where
  \<comment> \<open>\<open>re.match\<close> of a quote, any characters but a newline, and a quote, at the start of \<open>x\<close>\<close>
  "re_match_quoted x =
     (case x of
        [] \<Rightarrow> False
      | q # rest \<Rightarrow>
          is_quote q \<and>
          (let pre = takeWhile (\<lambda>c. \<not> is_quote c) rest
           in CHR 0x0A \<notin> set pre \<and> length pre < length rest))"

definition cmd_exec :: "string \<Rightarrow> string list \<Rightarrow> unit m" where
  \<open>cmd_exec service cmd_args =
     (let cmd = (if length cmd_args = 1 \<and> re_match_quoted (hd cmd_args) then py_repr_list cmd_args
                 else ''"'' @ replace (join_str '' '' cmd_args) ''"'' [CHR 0x5C, CHR 0x22] @ ''"'')
      in bnd (reads SUDO_CMD) (\<lambda>sudo.
           os_system (fmt_opt sudo @ '' docker exec -i -t bitcoinprotocols_'' @ service
                      @ ''_1 bash -c '' @ cmd)))\<close>

definition cmd_shell :: "string \<Rightarrow> unit m" where
  "cmd_shell service =
     bnd (is_container_running service True) (\<lambda>container_running.
       if container_running = Some True then
         bnd (reads SUDO_CMD) (\<lambda>sudo.
           os_system (fmt_opt sudo @ '' docker exec -i -t bitcoinprotocols_'' @ service @ ''_1 bash''))
       else
         seq (py_print ''Container is not running -- creating a transient container with a 'bash' shell entrypoint...'')
             (run_compose_cmd (''run --no-deps --rm --entrypoint bash '' @ service)))"

subsection \<open>update\<close>

definition validate_services :: "string list \<Rightarrow> unit m" where
  "validate_services services =
     (if services \<noteq> [[]] then
        for_each services (\<lambda>service.
          if service \<notin> set UPDATE_CHOICES then
            seq (py_print (''Invalid service: '' @ service)) (sys_exit 1)
          else ret ())
      else ret ())"

definition remove_egg :: "string \<Rightarrow> unit m" where
  \<open>remove_egg path =
     seq (py_print (''Removing egg path '' @ path))
         (bnd (reads id) (\<lambda>s.
            if IS_WINDOWS s \<noteq> Some True then
              os_system (fmt_opt (SUDO_CMD s) @ '' bash -c "rm -rf '' @ path @ ''"'')
            else shutil_rmtree path))\<close>

definition update_service_dir :: "string \<Rightarrow> string \<Rightarrow> unit m" where
  \<open>update_service_dir service_base service_dir =
     bnd (reads id) (\<lambda>s.
       let service_dir_path = os_path_join3 (SCRIPTDIR s) ''src'' service_dir
       in if \<not> path_exists (fs s) service_dir_path then ret ()
          else
            bnd (subprocess_check_output
                   (''cd '' @ service_dir_path @ '';git symbolic-ref --short -q HEAD;cd '' @ CURDIR s))
              (\<lambda>out.
                let service_branch = strip out
                in if service_branch = [] then
                     seq (py_print ''Unknown service git branch name, or repo in detached state'')
                         (sys_exit 1)
                   else
                     (let git_cmd = ''cd '' @ service_dir_path @ ''; git pull origin '' @ service_branch
                                    @ ''; cd '' @ CURDIR s
                      in seq (if IS_WINDOWS s \<noteq> Some True then
                                os_system (fmt_opt (SUDO_CMD s) @ '' -u '' @ fmt_opt (SESSION_USER s)
                                           @ '' bash -c "'' @ git_cmd @ ''"'')
                              else os_system git_cmd)
                             (if service_base \<in> set [''counterparty'', ''armory-utxsvr''] then
                                for_each (glob s (os_path_join service_dir_path ''*.egg-info'')) remove_egg
                              else ret ()))))\<close>

definition service_dirs :: "state \<Rightarrow> string \<Rightarrow> string list" where
  "service_dirs s service_base =
     (if service_base = ''counterparty'' then
        [os_path_join3 (SCRIPTDIR s) ''src'' ''counterparty-lib'',
         os_path_join3 (SCRIPTDIR s) ''src'' ''counterparty-cli'']
      else [service_base])"

definition update_source :: "string \<Rightarrow> unit m" where
  \<comment> \<open>the source-code update of one base service: the loop over its directories\<close>
  "update_source service_base =
     bnd (reads id) (\<lambda>s.
       for_each (service_dirs s service_base) (update_service_dir service_base))"

fun update_loop :: "bool \<Rightarrow> string list \<Rightarrow> string list \<Rightarrow> string list m" where
  \<comment> \<open>the while loop: the services still to update, and \<open>git_has_updated\<close>\<close>
  "update_loop no_restart [] git_has_updated = ret git_has_updated"
| "update_loop no_restart (service # services_to_update) git_has_updated =
     (let service_base = replace service ''-testnet'' [] in
      bnd (if service_base \<notin> set git_has_updated then
             seq (update_source service_base) (ret (git_has_updated @ [service_base]))
           else ret git_has_updated)
        (\<lambda>git_has_updated'.
      seq (if \<not> no_restart then run_compose_cmd (''restart '' @ service) else ret ())
          (update_loop no_restart services_to_update git_has_updated')))"

definition cmd_update :: "bool \<Rightarrow> string list \<Rightarrow> unit m" where
  "cmd_update no_restart services =
     seq (validate_services services)
         (bnd (update_loop no_restart (if length services = 0 then UPDATE_CHOICES else services) [])
              (\<lambda>_. ret ()))"

subsection \<open>rebuild\<close>

definition cmd_rebuild :: "bool \<Rightarrow> string list \<Rightarrow> bool \<Rightarrow> unit m" where
  "cmd_rebuild use_docker_pulls services no_cache =
     steps [
       if use_docker_pulls then run_compose_cmd (''pull --ignore-pull-failures '' @ join_str '' '' services)
       else py_print ''skipping docker pull command'',
       if no_cache then run_compose_cmd (''build --no-cache '' @ join_str '' '' services) else ret (),
       run_compose_cmd (''up -d --build --force-recreate --no-deps '' @ join_str '' '' services)]"

subsection \<open>main\<close>

definition dispatch :: "args \<Rightarrow> bool \<Rightarrow> string \<Rightarrow> string \<Rightarrow> unit m" where
  "dispatch a config_existed build_config repo_branch =
     (case command a of
        Install _ _ use_ssh_uris _ _ \<Rightarrow>
          cmd_install config_existed build_config repo_branch use_ssh_uris (\<not> no_pull a)
      | Uninstall \<Rightarrow>
          seq (run_compose_cmd ''down'') (modify (\<lambda>s. s\<lparr>settings := None\<rparr>))
      | Start services \<Rightarrow> run_compose_cmd (''start '' @ join_str '' '' services)
      | Stop services \<Rightarrow> run_compose_cmd (''stop '' @ join_str '' '' services)
      | Restart services \<Rightarrow> run_compose_cmd (''restart '' @ join_str '' '' services)
      | Reparse service \<Rightarrow>
          seq (run_compose_cmd (''stop '' @ service))
              (run_compose_cmd (''run -e COMMAND=reparse '' @ service))
      | Rollback block_index service \<Rightarrow>
          seq (run_compose_cmd (''stop '' @ service))
              (run_compose_cmd (''run -e COMMAND='rollback '' @ block_index @ [CHR 0x27] @ '' '' @ service))
      | Validate service \<Rightarrow>
          seq (run_compose_cmd (''stop '' @ service))
              (run_compose_cmd (''run -e COMMAND=checkdb '' @ service))
      | Vacuum service \<Rightarrow>
          seq (run_compose_cmd (''stop '' @ service))
              (run_compose_cmd (''run -e COMMAND=vacuum '' @ service))
      | Tail services num_lines \<Rightarrow>
          run_compose_cmd (''logs -f --tail='' @ str_of_int num_lines @ '' '' @ join_str '' '' services)
      | Logs services \<Rightarrow> run_compose_cmd (''logs '' @ join_str '' '' services)
      | Ps \<Rightarrow> run_compose_cmd ''ps''
      | Exec service cmd_args \<Rightarrow> cmd_exec service cmd_args
      | Shell service \<Rightarrow> cmd_shell service
      | Update no_restart services \<Rightarrow> cmd_update no_restart services
      | ConfigCheck \<Rightarrow> config_check build_config
      | Rebuild services _ no_cache \<Rightarrow> cmd_rebuild (\<not> no_pull a) services no_cache
      | DockerClean \<Rightarrow> ret ())"

definition require_config :: "args \<Rightarrow> bool \<Rightarrow> unit m" where
  \<comment> \<open>without a settings file only install may run, and install writes the default settings\<close>
  "require_config a config_existed =
     (if \<not> config_existed then
        (case command a of
           Install config branch _ _ _ \<Rightarrow> write_config (branch, config)
         | _ \<Rightarrow>
           seq (py_print (''config file '' @ BTC_CONFIG_FILE
                          @ '' does not exist. Please run the 'install' command first''))
               (sys_exit 1))
      else ret ())"

definition load_config :: "args \<Rightarrow> (string \<times> string) m" where
  \<comment> \<open>read the settings back, set \<open>DOCKER_CONFIG_PATH\<close> and the environment; returns
      \<open>build_config\<close> and \<open>repo_branch\<close>\<close>
  "load_config a =
     bnd (reads settings) (\<lambda>cfg.
       case cfg of
         None \<Rightarrow> raise ''AssertionError''
       | Some (repo_branch, build_config) \<Rightarrow>
           seq (modify (\<lambda>s. s\<lparr>
                  DOCKER_CONFIG_PATH :=
                    Some (os_path_join (SCRIPTDIR s) (''docker-compose.'' @ build_config @ ''.yml'')),
                  environ := (environ s)
                    (''BTC_RELEASE_TAG'' \<mapsto> (if repo_branch = ''master'' then ''latest'' else repo_branch),
                     ''HOSTNAME_BASE'' \<mapsto> hostname s,
                     ''MONGODB_HOST_INTERFACE'' \<mapsto> mongodb_interface (command a),
                     ''NO_BOOTSTRAP'' \<mapsto> (if no_bootstrap (command a) then ''true'' else ''false''))\<rparr>))
               (ret (build_config, repo_branch)))"

definition main :: "args \<Rightarrow> unit m" where
  "main argv =
     seq setup_env
    (bnd (parse_args argv) (\<lambda>a.
     seq (if command a = DockerClean then docker_clean else ret ())
    (bnd (reads settings) (\<lambda>cfg.
     let config_existed = (cfg \<noteq> None) in
     seq (require_config a config_existed)
    (bnd (load_config a) (\<lambda>(build_config, repo_branch).
     dispatch a config_existed build_config repo_branch))))))"

subsection \<open>A sample host\<close>

text \<open>
  A Linux host before installation: user \<open>alice\<close> with cached sudo credentials, the
  script in \<open>/opt/btc\<close>, no listener on any port, no container, an empty file tree.
\<close>

definition host0 :: state where
  \<open>host0 = \<lparr>
     os_name = ''posix'', euid = 1000, egid = 1000,
     SCRIPTDIR = ''/opt/btc'', CURDIR = ''/home/alice'', hostname = ''node1'',
     check_output = (\<lambda>cmd.
        if cmd = ''logname'' then Some (''alice'' @ [CHR 0x0A])
        else if cmd = ''sudo -n uptime 2>&1|grep "load"|wc -l'' then Some (''1'' @ [CHR 0x0A])
        else None),
     connect_ex = (\<lambda>host port. 111),
     glob = (\<lambda>pattern. []),
     json_mountpoint = (\<lambda>out. None),
     difflib_hunks = (\<lambda>a b. []),
     settings = None,
     fs = Map.empty,
     environ = Map.empty,
     IS_WINDOWS = None, SESSION_USER = None, SUDO_CMD = None, DOCKER_CONFIG_PATH = None\<rparr>\<close>

definition installed0 :: state where
  \<comment> \<open>the same host after \<open>install base master\<close>\<close>
  "installed0 = host0\<lparr>settings := Some (''master'', ''base'')\<rparr>"

subsection \<open>Notions used in the statements\<close>

definition compose_cmdline :: "state \<Rightarrow> string \<Rightarrow> string \<Rightarrow> string" where
  \<comment> \<open>the command line \<open>run_compose_cmd\<close> passes to the shell once the settings are loaded\<close>
  "compose_cmdline s build_config cmd =
     (if os_name s \<noteq> ''nt'' then ''sudo -E'' else []) @ '' docker-compose -f ''
     @ os_path_join (SCRIPTDIR s) (''docker-compose.'' @ build_config @ ''.yml'')
     @ '' -p bitcoinprotocols '' @ cmd"

definition loaded :: "args \<Rightarrow> state \<Rightarrow> state" where
  \<comment> \<open>the state in which a command is dispatched: after \<open>setup_env\<close> and \<open>load_config\<close>\<close>
  "loaded a s = state_of (load_config a (state_of (setup_env s)))"

definition sudo_prefix :: "state \<Rightarrow> string" where
  \<comment> \<open>\<open>SUDO_CMD\<close> as \<open>setup_env\<close> sets it\<close>
  "sudo_prefix s = (if os_name s \<noteq> ''nt'' then ''sudo -E'' else [])"

definition inspect_cmdline :: "state \<Rightarrow> string \<Rightarrow> string" where
  \<comment> \<open>the command \<open>is_container_running\<close> reads the container state with\<close>
  \<open>inspect_cmdline s service =
     sudo_prefix s @ '' docker inspect --format="{{ .State.Running }}" bitcoinprotocols_'' @ service @ ''_1''\<close>

definition exec_bash_cmdline :: "state \<Rightarrow> string \<Rightarrow> string" where
  "exec_bash_cmdline s service =
     sudo_prefix s @ '' docker exec -i -t bitcoinprotocols_'' @ service @ ''_1 bash''"

definition is_install :: "command \<Rightarrow> bool" where
  "is_install c = (case c of Install _ _ _ _ _ \<Rightarrow> True | _ \<Rightarrow> False)"

definition install_first_msg :: string where
  "install_first_msg = ''config file .btc.config does not exist. Please run the 'install' command first''"

subsection \<open>More sample hosts\<close>

definition installed_stopped :: state where
  \<comment> \<open>installed; the container of \<open>counterparty\<close> exists and is stopped\<close>
  \<open>installed_stopped = installed0\<lparr>check_output := (check_output installed0)
     (''sudo -E docker inspect --format="{{ .State.Running }}" bitcoinprotocols_counterparty_1''
        := Some (''false'' @ [CHR 0x0A]))\<rparr>\<close>

definition host_docker :: state where
  \<comment> \<open>not installed; one container and one image on the host\<close>
  "host_docker = host0\<lparr>check_output := (check_output host0)
     (''sudo -E docker ps -a -q'' := Some (''c0ffee'' @ [CHR 0x0A]),
      ''sudo -E docker images -q'' := Some (''1mage'' @ [CHR 0x0A]))\<rparr>"


definition host_lan_listener :: state where
  \<comment> \<open>not installed; a process listens on port 8332 of the interface 192.168.1.10 only\<close>
  "host_lan_listener = host0\<lparr>connect_ex := (\<lambda>host port. if host = ''192.168.1.10'' \<and> port = 8332 then 0 else 111)\<rparr>"

subsection \<open>Notions used in the statements about install\<close>

definition port_msg :: "nat \<Rightarrow> string" where
  "port_msg port =
     ''Cannot install, as it appears a process is already listening on host port '' @ str_of_nat port"

definition port_bound :: "state \<Rightarrow> nat \<Rightarrow> bool" where
  \<comment> \<open>a TCP connection to the port on 127.0.0.1 succeeds\<close>
  "port_bound s port = (connect_ex s ''127.0.0.1'' port = 0)"

definition installing :: "args \<Rightarrow> string \<Rightarrow> string \<Rightarrow> state \<Rightarrow> state" where
  \<comment> \<open>the state in which install is dispatched in the Uninstalled state: after \<open>setup_env\<close>,
      the writing of the settings (branch \<open>b\<close>, config \<open>c\<close>) and \<open>load_config\<close>\<close>
  "installing a b c s =
     state_of (load_config a ((state_of (setup_env s))\<lparr>settings := Some (b, c)\<rparr>))"

definition install_after_ports :: "string \<Rightarrow> string \<Rightarrow> bool \<Rightarrow> bool \<Rightarrow> unit m" where
  \<comment> \<open>what install does once the port check has passed\<close>
  "install_after_ports build_config repo_branch use_ssh_uris use_docker_pulls =
     steps [
       clone_repos build_config repo_branch use_ssh_uris,
       if use_docker_pulls then run_compose_cmd ''pull --ignore-pull-failures''
       else py_print ''skipping docker pull command'',
       copy_default_configs,
       link_volumes build_config,
       run_compose_cmd ''up -d'']"

subsection \<open>update, read as a de-duplicating loop\<close>





subsection \<open>Reasoning about programs\<close>

lemma trace_of_simp [simp]: "trace_of (t, r, s) = t"
  by (simp add: trace_of_def)

lemma outcome_of_simp [simp]: "outcome_of (t, r, s) = r"
  by (simp add: outcome_of_def)

lemma state_of_simp [simp]: "state_of (t, r, s) = s"
  by (simp add: state_of_def)

lemma result_eq: "r = (trace_of r, outcome_of r, state_of r)"
  by (cases r) (simp add: trace_of_def outcome_of_def state_of_def)

lemma bnd_Inl:
  "outcome_of (p s) = Inl e \<Longrightarrow> bnd p f s = (trace_of (p s), Inl e, state_of (p s))"
  by (cases "p s") (auto simp: bnd_def)

lemma bnd_Inr:
  "outcome_of (p s) = Inr a \<Longrightarrow>
   bnd p f s = (trace_of (p s) @ trace_of (f a (state_of (p s))),
                outcome_of (f a (state_of (p s))), state_of (f a (state_of (p s))))"
  by (cases "p s"; cases "f a (state_of (p s))") (auto simp: bnd_def)

lemma seq_Inl:
  "outcome_of (p s) = Inl e \<Longrightarrow> seq p q s = (trace_of (p s), Inl e, state_of (p s))"
  by (simp add: seq_def bnd_Inl)

lemma seq_Inr:
  "outcome_of (p s) = Inr () \<Longrightarrow>
   seq p q s = (trace_of (p s) @ trace_of (q (state_of (p s))),
                outcome_of (q (state_of (p s))), state_of (q (state_of (p s))))"
  by (simp add: seq_def bnd_Inr)

lemmas prim_defs =
  ret_def reads_def modify_def emit_def py_print_def sys_exit_def raise_def os_system_def

subsection \<open>Start-up: \<open>setup_env\<close>, the settings file, the environment\<close>

lemma setup_env_frame:
  "settings (state_of (setup_env s)) = settings s"
  "fs (state_of (setup_env s)) = fs s"
  "environ (state_of (setup_env s)) = environ s"
  "SCRIPTDIR (state_of (setup_env s)) = SCRIPTDIR s"
  "CURDIR (state_of (setup_env s)) = CURDIR s"
  "hostname (state_of (setup_env s)) = hostname s"
  "os_name (state_of (setup_env s)) = os_name s"
  "euid (state_of (setup_env s)) = euid s"
  "egid (state_of (setup_env s)) = egid s"
  "check_output (state_of (setup_env s)) = check_output s"
  "connect_ex (state_of (setup_env s)) = connect_ex s"
  "glob (state_of (setup_env s)) = glob s"
  "json_mountpoint (state_of (setup_env s)) = json_mountpoint s"
  "difflib_hunks (state_of (setup_env s)) = difflib_hunks s"
  "DOCKER_CONFIG_PATH (state_of (setup_env s)) = DOCKER_CONFIG_PATH s"
  by (simp_all add: setup_env_def bnd_def seq_def prim_defs subprocess_check_output_def
        split: option.splits)

lemma setup_env_ok:
  assumes "outcome_of (setup_env s) = Inr ()"
  shows "SUDO_CMD (state_of (setup_env s)) = Some (if os_name s \<noteq> ''nt'' then ''sudo -E'' else [])"
    and "IS_WINDOWS (state_of (setup_env s)) = Some (os_name s = ''nt'')"
  using assms
  by (auto simp add: setup_env_def bnd_def seq_def prim_defs subprocess_check_output_def
        split: option.splits if_splits)

lemma os_path_join_nonempty: "b \<noteq> [] \<Longrightarrow> os_path_join a b \<noteq> []"
  by (simp add: os_path_join_def)

lemma load_config_Some:
  "settings s = Some (b, c) \<Longrightarrow>
   load_config a s = ([], Inr (c, b), s\<lparr>
      DOCKER_CONFIG_PATH := Some (os_path_join (SCRIPTDIR s) (''docker-compose.'' @ c @ ''.yml'')),
      environ := (environ s)
        (''BTC_RELEASE_TAG'' \<mapsto> (if b = ''master'' then ''latest'' else b),
         ''HOSTNAME_BASE'' \<mapsto> hostname s,
         ''MONGODB_HOST_INTERFACE'' \<mapsto> mongodb_interface (command a),
         ''NO_BOOTSTRAP'' \<mapsto> (if no_bootstrap (command a) then ''true'' else ''false''))\<rparr>)"
  by (simp add: load_config_def bnd_def seq_def prim_defs)

lemma loaded_fields:
  assumes "settings s = Some (b, c)"
  shows "settings (loaded a s) = Some (b, c)"
    and "fs (loaded a s) = fs s"
    and "SCRIPTDIR (loaded a s) = SCRIPTDIR s"
    and "CURDIR (loaded a s) = CURDIR s"
    and "check_output (loaded a s) = check_output s"
    and "connect_ex (loaded a s) = connect_ex s"
    and "glob (loaded a s) = glob s"
    and "difflib_hunks (loaded a s) = difflib_hunks s"
    and "os_name (loaded a s) = os_name s"
    and "DOCKER_CONFIG_PATH (loaded a s) = Some (os_path_join (SCRIPTDIR s) (''docker-compose.'' @ c @ ''.yml''))"
    and "environ (loaded a s) ''BTC_RELEASE_TAG'' = Some (if b = ''master'' then ''latest'' else b)"
    and "SUDO_CMD (loaded a s) = SUDO_CMD (state_of (setup_env s))"
    and "IS_WINDOWS (loaded a s) = IS_WINDOWS (state_of (setup_env s))"
    and "SESSION_USER (loaded a s) = SESSION_USER (state_of (setup_env s))"
  using assms by (simp_all add: loaded_def load_config_Some setup_env_frame)

lemma run_compose_cmd_after:
  assumes "outcome_of (setup_env s) = Inr ()" and "settings s = Some (b, c)" and "b \<noteq> []"
    and "DOCKER_CONFIG_PATH s' = DOCKER_CONFIG_PATH (loaded a s)"
    and "environ s' ''BTC_RELEASE_TAG'' = environ (loaded a s) ''BTC_RELEASE_TAG''"
    and "SUDO_CMD s' = SUDO_CMD (loaded a s)"
  shows "run_compose_cmd cmd s' = ([System (compose_cmdline s c cmd)], Inr (), s')"
  using assms
  by (simp add: run_compose_cmd_def bnd_def prim_defs loaded_fields setup_env_ok
        compose_cmdline_def os_path_join_nonempty fmt_opt_def PROJECT_NAME_def)

lemma run_compose_cmd_loaded:
  assumes "outcome_of (setup_env s) = Inr ()" and "settings s = Some (b, c)" and "b \<noteq> []"
  shows "run_compose_cmd cmd (loaded a s) = ([System (compose_cmdline s c cmd)], Inr (), loaded a s)"
  by (rule run_compose_cmd_after [OF assms]) simp_all

lemma main_installed:
  assumes "outcome_of (setup_env s) = Inr ()" and "choices_ok (command a)"
    and "command a \<noteq> DockerClean" and "settings s = Some (b, c)"
  shows "main a s = (trace_of (setup_env s) @ trace_of (dispatch a True c b (loaded a s)),
                     outcome_of (dispatch a True c b (loaded a s)),
                     state_of (dispatch a True c b (loaded a s)))"
proof -
  let ?s1 = "state_of (setup_env s)"
  have st: "settings ?s1 = Some (b, c)"
    using assms(4) by (simp add: setup_env_frame)
  have "bnd (parse_args a) (\<lambda>a.
          seq (if command a = DockerClean then docker_clean else ret ())
         (bnd (reads settings) (\<lambda>cfg.
          let config_existed = (cfg \<noteq> None) in
          seq (require_config a config_existed)
         (bnd (load_config a) (\<lambda>(build_config, repo_branch).
          dispatch a config_existed build_config repo_branch))))) ?s1
        = dispatch a True c b (loaded a s)"
    using assms(2,3) st
    by (simp add: parse_args_def bnd_def seq_def prim_defs require_config_def
          load_config_Some loaded_def split: prod.splits)
  then show ?thesis
    using assms(1) unfolding main_def by (simp add: seq_Inr [of setup_env s])
qed
lemma setup_env_system:
  "System cmd \<in> set (trace_of (setup_env s)) \<Longrightarrow> cmd = ''bash -c 'sudo whoami > /dev/null'' @ [CHR 0x27]"
  by (auto simp add: setup_env_def bnd_def seq_def prim_defs subprocess_check_output_def
        split: option.splits if_splits)

lemma setup_env_linux:
  assumes "os_name s \<noteq> ''nt''" and "check_output s ''logname'' = Some u" and "strip u \<noteq> []"
    and "check_output s ''sudo -n uptime 2>&1|grep \"load\"|wc -l'' = Some x" and "strip x = ''1''"
    and "euid s \<noteq> 0"
  shows "setup_env s =
     ([CheckOutput ''logname'', CheckOutput ''sudo -n uptime 2>&1|grep \"load\"|wc -l''], Inr (),
      s\<lparr>IS_WINDOWS := Some False, SESSION_USER := Some (strip u), SUDO_CMD := Some ''sudo -E''\<rparr>)"
  using assms
  by (simp add: setup_env_def bnd_def seq_def prim_defs subprocess_check_output_def)

lemma host0_fields:
  "os_name host0 = ''posix''" "euid host0 = 1000" "egid host0 = 1000"
  "SCRIPTDIR host0 = ''/opt/btc''" "CURDIR host0 = ''/home/alice''" "hostname host0 = ''node1''"
  "settings host0 = None" "fs host0 = Map.empty" "environ host0 = Map.empty"
  "glob host0 = (\<lambda>pattern. [])" "connect_ex host0 = (\<lambda>host port. 111)"
  by (simp_all add: host0_def)

lemma host0_check_output:
  "check_output host0 ''logname'' = Some (''alice'' @ [CHR 0x0A])"
  "check_output host0 ''sudo -n uptime 2>&1|grep \"load\"|wc -l'' = Some (''1'' @ [CHR 0x0A])"
  by (simp_all add: host0_def)

lemma strip_alice: "strip (''alice'' @ [CHR 0x0A]) = ''alice''"
  by (simp add: strip_def isspace_def)

lemma strip_one: "strip (''1'' @ [CHR 0x0A]) = ''1''"
  by (simp add: strip_def isspace_def)

lemma setup_env_sample:
  assumes "os_name s = ''posix''" and "euid s = 1000"
    and "check_output s ''logname'' = Some (''alice'' @ [CHR 0x0A])"
    and "check_output s ''sudo -n uptime 2>&1|grep \"load\"|wc -l'' = Some (''1'' @ [CHR 0x0A])"
  shows "setup_env s =
     ([CheckOutput ''logname'', CheckOutput ''sudo -n uptime 2>&1|grep \"load\"|wc -l''], Inr (),
      s\<lparr>IS_WINDOWS := Some False, SESSION_USER := Some ''alice'', SUDO_CMD := Some ''sudo -E''\<rparr>)"
proof -
  have 1: "os_name s \<noteq> ''nt''" using assms(1) by simp
  have 2: "strip (''alice'' @ [CHR 0x0A]) \<noteq> []" unfolding strip_alice by simp
  have 3: "euid s \<noteq> 0" using assms(2) by simp
  show ?thesis
    using setup_env_linux [OF 1 assms(3) 2 assms(4) strip_one 3] unfolding strip_alice .
qed

lemma setup_env_installed0:
  "setup_env installed0 =
     ([CheckOutput ''logname'', CheckOutput ''sudo -n uptime 2>&1|grep \"load\"|wc -l''], Inr (),
      installed0\<lparr>IS_WINDOWS := Some False, SESSION_USER := Some ''alice'', SUDO_CMD := Some ''sudo -E''\<rparr>)"
  by (rule setup_env_sample) (simp_all add: installed0_def host0_fields host0_check_output)

lemma compose_cmdline_sample:
  "os_name s = ''posix'' \<Longrightarrow> SCRIPTDIR s = ''/opt/btc'' \<Longrightarrow>
   compose_cmdline s ''base'' cmd =
     ''sudo -E docker-compose -f /opt/btc/docker-compose.base.yml -p bitcoinprotocols '' @ cmd"
  by (simp add: compose_cmdline_def os_path_join_def startswith_def)

lemma installed0_fields:
  "os_name installed0 = ''posix''" "SCRIPTDIR installed0 = ''/opt/btc''"
  "CURDIR installed0 = ''/home/alice''"
  "settings installed0 = Some (''master'', ''base'')" "fs installed0 = Map.empty"
  "glob installed0 = (\<lambda>pattern. [])"
  by (simp_all add: installed0_def host0_fields)



subsection \<open>Commands in the Uninstalled state\<close>

lemma setup_env_exit:
  "outcome_of (setup_env s) = Inl e \<Longrightarrow> exit_code (Inl e :: outcome + unit) = 1"
  by (auto simp add: setup_env_def bnd_def seq_def prim_defs subprocess_check_output_def exit_code_def
        split: option.splits if_splits)

lemma main_setup_fails:
  "outcome_of (setup_env s) = Inl e \<Longrightarrow>
   main a s = (trace_of (setup_env s), Inl e, state_of (setup_env s))"
  unfolding main_def by (rule seq_Inl)

lemma main_parse_fails:
  assumes "outcome_of (setup_env s) = Inr ()" and "\<not> choices_ok (command a)"
  shows "main a s = (trace_of (setup_env s), Inl (Exit 2), state_of (setup_env s))"
  using assms unfolding main_def
  by (simp add: seq_Inr [of setup_env s] parse_args_def bnd_def prim_defs)

lemma main_uninstalled:
  assumes "outcome_of (setup_env s) = Inr ()" and "choices_ok (command a)"
    and "command a \<noteq> DockerClean" and "\<not> is_install (command a)" and "settings s = None"
  shows "main a s = (trace_of (setup_env s) @ [Print install_first_msg], Inl (Exit 1),
                     state_of (setup_env s))"
proof -
  have st: "settings (state_of (setup_env s)) = None"
    using assms(5) by (simp add: setup_env_frame)
  have rc: "require_config a False (state_of (setup_env s)) =
              ([Print install_first_msg], Inl (Exit 1), state_of (setup_env s))"
    using assms(4)
    by (cases "command a")
       (simp_all add: require_config_def is_install_def seq_def bnd_def prim_defs
          install_first_msg_def BTC_CONFIG_FILE_def)
  have "bnd (parse_args a) (\<lambda>a.
          seq (if command a = DockerClean then docker_clean else ret ())
         (bnd (reads settings) (\<lambda>cfg.
          let config_existed = (cfg \<noteq> None) in
          seq (require_config a config_existed)
         (bnd (load_config a) (\<lambda>(build_config, repo_branch).
          dispatch a config_existed build_config repo_branch))))) (state_of (setup_env s))
        = ([Print install_first_msg], Inl (Exit 1), state_of (setup_env s))"
    using assms(2,3) st
    by (simp add: parse_args_def bnd_def seq_def prim_defs rc)
  then show ?thesis
    using assms(1) unfolding main_def by (simp add: seq_Inr [of setup_env s])
qed

text \<open>
  Claim C1, as the code has it. For every verb other than \<open>install\<close> and \<open>docker_clean\<close>,
  running it while the settings file is absent ends with a non-zero exit code and changes
  neither the settings, nor the file tree, nor the environment; the only actions are those
  of the start-up probing done for every verb and the message that directs the operator to
  run \<open>install\<close> first. When start-up succeeds and the arguments parse, the run is exactly:
  the start-up probes, that message, exit code 1. (\<open>docker_clean\<close> is dispatched before the
  settings file is looked at, in either state.)
\<close>

theorem uninstalled_requires_install:
  assumes "settings s = None" and "\<not> is_install (command a)" and "command a \<noteq> DockerClean"
  shows "exit_code (outcome_of (main a s)) \<noteq> 0
       \<and> (outcome_of (setup_env s) = Inr () \<and> choices_ok (command a) \<longrightarrow>
            main a s = (trace_of (setup_env s) @ [Print install_first_msg], Inl (Exit 1),
                        state_of (setup_env s)))
       \<and> set (trace_of (main a s)) \<subseteq> set (trace_of (setup_env s)) \<union> {Print install_first_msg}
       \<and> settings (state_of (main a s)) = None
       \<and> fs (state_of (main a s)) = fs s
       \<and> environ (state_of (main a s)) = environ s"
proof (cases "outcome_of (setup_env s)")
  case (Inl e)
  show ?thesis
    using assms(1) Inl setup_env_exit [OF Inl]
    by (auto simp add: main_setup_fails [OF Inl] setup_env_frame)
next
  case (Inr u)
  then have ok: "outcome_of (setup_env s) = Inr ()" by simp
  show ?thesis
  proof (cases "choices_ok (command a)")
    case True
    show ?thesis
      using assms(1) ok True
      by (auto simp add: main_uninstalled [OF ok True assms(3,2,1)] setup_env_frame exit_code_def)
  next
    case False
    show ?thesis
      using assms(1) ok False
      by (auto simp add: main_parse_fails [OF ok False] setup_env_frame exit_code_def)
  qed
qed

theorem uninstalled_requires_install_witness:
  "main \<lparr>debug = False, no_pull = False, command = Start [''counterparty'']\<rparr> host0 =
     ([CheckOutput ''logname'',
       CheckOutput ''sudo -n uptime 2>&1|grep \"load\"|wc -l'',
       Print ''config file .btc.config does not exist. Please run the 'install' command first''],
      Inl (Exit 1),
      host0\<lparr>IS_WINDOWS := Some False, SESSION_USER := Some ''alice'', SUDO_CMD := Some ''sudo -E''\<rparr>)"
proof -
  let ?a = "\<lparr>debug = False, no_pull = False, command = Start [''counterparty'']\<rparr>"
  have 1: "\<not> is_install (command ?a)" by (simp add: is_install_def)
  have 2: "command ?a \<noteq> DockerClean" by simp
  have s: "setup_env host0 =
     ([CheckOutput ''logname'', CheckOutput ''sudo -n uptime 2>&1|grep \"load\"|wc -l''], Inr (),
      host0\<lparr>IS_WINDOWS := Some False, SESSION_USER := Some ''alice'', SUDO_CMD := Some ''sudo -E''\<rparr>)"
    by (rule setup_env_sample) (simp_all only: host0_fields host0_check_output)
  have 3: "outcome_of (setup_env host0) = Inr () \<and> choices_ok (command ?a)"
    by (simp add: s choices_ok_def)
  show ?thesis
    using uninstalled_requires_install [OF host0_fields(7) 1 2] 3
    by (simp add: s install_first_msg_def)
qed

lemma main_docker_clean:
  assumes "outcome_of (setup_env s) = Inr ()" and "command a = DockerClean"
    and "docker_clean (state_of (setup_env s)) = (t, Inl e, s')"
  shows "main a s = (trace_of (setup_env s) @ t, Inl e, s')"
proof -
  have "bnd (parse_args a) (\<lambda>a.
          seq (if command a = DockerClean then docker_clean else ret ())
         (bnd (reads settings) (\<lambda>cfg.
          let config_existed = (cfg \<noteq> None) in
          seq (require_config a config_existed)
         (bnd (load_config a) (\<lambda>(build_config, repo_branch).
          dispatch a config_existed build_config repo_branch))))) (state_of (setup_env s))
        = (t, Inl e, s')"
    using assms(2,3)
    by (simp add: parse_args_def choices_ok_def bnd_def seq_def prim_defs)
  then show ?thesis
    using assms(1) unfolding main_def by (simp add: seq_Inr [of setup_env s])
qed

lemma host_docker_fields:
  "os_name host_docker = ''posix''" "euid host_docker = 1000"
  "settings host_docker = None"
  "check_output host_docker ''logname'' = Some (''alice'' @ [CHR 0x0A])"
  "check_output host_docker ''sudo -n uptime 2>&1|grep \"load\"|wc -l'' = Some (''1'' @ [CHR 0x0A])"
  "check_output host_docker ''sudo -E docker ps -a -q'' = Some (''c0ffee'' @ [CHR 0x0A])"
  "check_output host_docker ''sudo -E docker images -q'' = Some (''1mage'' @ [CHR 0x0A])"
  by (simp_all add: host_docker_def host0_def)

lemma setup_env_host_docker:
  "setup_env host_docker =
     ([CheckOutput ''logname'', CheckOutput ''sudo -n uptime 2>&1|grep \"load\"|wc -l''], Inr (),
      host_docker\<lparr>IS_WINDOWS := Some False, SESSION_USER := Some ''alice'', SUDO_CMD := Some ''sudo -E''\<rparr>)"
  by (rule setup_env_sample) (simp_all only: host_docker_fields)

theorem docker_clean_uninstalled_counterexample:
  "settings host_docker = None
   \<and> trace_of (main \<lparr>debug = False, no_pull = False, command = DockerClean\<rparr> host_docker) =
     [CheckOutput ''logname'',
      CheckOutput ''sudo -n uptime 2>&1|grep \"load\"|wc -l'',
      CheckOutput ''sudo -E docker ps -a -q'',
      CheckOutput ''sudo -E docker images -q'',
      System ''sudo -E docker rm c0ffee'',
      System ''sudo -E docker rmi 1mage'']
   \<and> outcome_of (main \<lparr>debug = False, no_pull = False, command = DockerClean\<rparr> host_docker) = Inl (Exit 1)"
proof -
  let ?a = "\<lparr>debug = False, no_pull = False, command = DockerClean\<rparr>"
  let ?s1 = "host_docker\<lparr>IS_WINDOWS := Some False, SESSION_USER := Some ''alice'', SUDO_CMD := Some ''sudo -E''\<rparr>"
  have ok: "outcome_of (setup_env host_docker) = Inr ()"
    by (simp add: setup_env_host_docker)
  have dc: "docker_clean (state_of (setup_env host_docker)) =
     ([CheckOutput ''sudo -E docker ps -a -q'',
       CheckOutput ''sudo -E docker images -q'',
       System ''sudo -E docker rm c0ffee'',
       System ''sudo -E docker rmi 1mage''], Inl (Exit 1), ?s1)"
    by (simp add: setup_env_host_docker docker_clean_def bnd_def seq_def prim_defs
          subprocess_check_output_def fmt_opt_def host_docker_fields split_nl_def)
  have c: "command ?a = DockerClean" by simp
  show ?thesis
    unfolding main_docker_clean [OF ok c dc]
    by (simp add: setup_env_host_docker host_docker_fields)
qed

subsection \<open>install: the port check\<close>

lemma ports_loop:
  "for_each ports (\<lambda>port.
      bnd (is_port_open port) (\<lambda>is_open.
        if is_open then
          seq (py_print (''Cannot install, as it appears a process is already listening on host port ''
                         @ str_of_nat port))
              (sys_exit 1)
        else ret ())) s =
   (case find (port_bound s) ports of
      None \<Rightarrow> (map (Connect ''127.0.0.1'') ports, Inr (), s)
    | Some p \<Rightarrow>
        (map (Connect ''127.0.0.1'') (takeWhile (\<lambda>p. \<not> port_bound s p) ports)
         @ [Connect ''127.0.0.1'' p, Print (port_msg p)], Inl (Exit 1), s))"
  by (induction ports)
     (auto simp add: bnd_def seq_def prim_defs is_port_open_def port_bound_def port_msg_def
        split: option.splits)

lemma check_ports_result:
  assumes "HOST_PORTS_USED c = Some ports"
  shows "check_ports c s =
   (case find (port_bound s) ports of
      None \<Rightarrow> (map (Connect ''127.0.0.1'') ports, Inr (), s)
    | Some p \<Rightarrow>
        (map (Connect ''127.0.0.1'') (takeWhile (\<lambda>p. \<not> port_bound s p) ports)
         @ [Connect ''127.0.0.1'' p, Print (port_msg p)], Inl (Exit 1), s))"
  unfolding check_ports_def assms by (simp add: ports_loop)

lemma installing_fields:
  "settings (installing a b c s) = Some (b, c)"
  "fs (installing a b c s) = fs s"
  "connect_ex (installing a b c s) = connect_ex s"
  "SCRIPTDIR (installing a b c s) = SCRIPTDIR s"
  "glob (installing a b c s) = glob s"
  "check_output (installing a b c s) = check_output s"
  "os_name (installing a b c s) = os_name s"
  "DOCKER_CONFIG_PATH (installing a b c s) = Some (os_path_join (SCRIPTDIR s) (''docker-compose.'' @ c @ ''.yml''))"
  "environ (installing a b c s) ''BTC_RELEASE_TAG'' = Some (if b = ''master'' then ''latest'' else b)"
  "SUDO_CMD (installing a b c s) = SUDO_CMD (state_of (setup_env s))"
  "IS_WINDOWS (installing a b c s) = IS_WINDOWS (state_of (setup_env s))"
  "SESSION_USER (installing a b c s) = SESSION_USER (state_of (setup_env s))"
  by (simp_all add: installing_def load_config_Some setup_env_frame)

lemma port_bound_installing: "port_bound (installing a b c s) = port_bound s"
  by (rule ext) (simp add: port_bound_def installing_fields)

lemma cmd_install_split:
  "cmd_install False c b u pulls =
     seq (check_ports c) (install_after_ports c b u pulls)"
  by (simp add: cmd_install_def install_after_ports_def seq_def bnd_def prim_defs fun_eq_iff
        split: prod.splits sum.splits)

lemma main_install:
  assumes "outcome_of (setup_env s) = Inr ()" and "command a = Install c b u i n"
    and "choices_ok (command a)" and "settings s = None"
  shows "main a s =
     (trace_of (setup_env s) @ trace_of (cmd_install False c b u (\<not> no_pull a) (installing a b c s)),
      outcome_of (cmd_install False c b u (\<not> no_pull a) (installing a b c s)),
      state_of (cmd_install False c b u (\<not> no_pull a) (installing a b c s)))"
proof -
  let ?s1 = "state_of (setup_env s)"
  have st: "settings ?s1 = None"
    using assms(4) by (simp add: setup_env_frame)
  have "bnd (parse_args a) (\<lambda>a.
          seq (if command a = DockerClean then docker_clean else ret ())
         (bnd (reads settings) (\<lambda>cfg.
          let config_existed = (cfg \<noteq> None) in
          seq (require_config a config_existed)
         (bnd (load_config a) (\<lambda>(build_config, repo_branch).
          dispatch a config_existed build_config repo_branch))))) ?s1
        = cmd_install False c b u (\<not> no_pull a) (installing a b c s)"
    using assms(2,3) st
    by (simp add: parse_args_def bnd_def seq_def prim_defs require_config_def write_config_def
          load_config_Some installing_def dispatch_def split: prod.splits)
  then show ?thesis
    using assms(1) unfolding main_def by (simp add: seq_Inr [of setup_env s])
qed


lemma main_install_ports_free:
  assumes "outcome_of (setup_env s) = Inr ()" and "command a = Install c b u i n"
    and "choices_ok (command a)" and "settings s = None"
    and "HOST_PORTS_USED c = Some ports" and "find (port_bound s) ports = None"
  shows "main a s =
     (trace_of (setup_env s) @ map (Connect ''127.0.0.1'') ports
        @ trace_of (install_after_ports c b u (\<not> no_pull a) (installing a b c s)),
      outcome_of (install_after_ports c b u (\<not> no_pull a) (installing a b c s)),
      state_of (install_after_ports c b u (\<not> no_pull a) (installing a b c s)))"
  unfolding main_install [OF assms(1,2,3,4)] cmd_install_split
  by (cases "install_after_ports c b u (\<not> no_pull a) (installing a b c s)")
     (simp add: seq_def bnd_def check_ports_result [OF assms(5)] port_bound_installing assms(6))




lemma ports_base:
  "HOST_PORTS_USED ''base'' = Some [8332, 18332, 8432, 18432, 4000, 14000, 8097, 18097, 8098, 18098]"
  by (simp add: HOST_PORTS_USED_def)




subsection \<open>update: validation\<close>

lemma validate_loop:
  "for_each services (\<lambda>service.
      if service \<notin> set UPDATE_CHOICES then
        seq (py_print (''Invalid service: '' @ service)) (sys_exit 1)
      else ret ()) s =
   (case find (\<lambda>x. x \<notin> set UPDATE_CHOICES) services of
      None \<Rightarrow> ([], Inr (), s)
    | Some x \<Rightarrow> ([Print (''Invalid service: '' @ x)], Inl (Exit 1), s))"
  by (induction services) (simp_all add: bnd_def seq_def prim_defs split: option.splits)

lemma validate_services_result:
  "validate_services services s =
   (if services = [[]] then ([], Inr (), s)
    else case find (\<lambda>x. x \<notin> set UPDATE_CHOICES) services of
      None \<Rightarrow> ([], Inr (), s)
    | Some x \<Rightarrow> ([Print (''Invalid service: '' @ x)], Inl (Exit 1), s))"
  by (simp add: validate_services_def validate_loop prim_defs)

lemma main_update:
  assumes "command a = Update nr services"
    and "settings s = Some (b, c)" and "outcome_of (setup_env s) = Inr ()"
  shows "main a s = (trace_of (setup_env s) @ trace_of (cmd_update nr services (loaded a s)),
                     outcome_of (cmd_update nr services (loaded a s)),
                     state_of (cmd_update nr services (loaded a s)))"
proof -
  have ch: "choices_ok (command a)"
    using assms(1) by (simp add: choices_ok_def)
  have ndc: "command a \<noteq> DockerClean"
    using assms(1) by simp
  have d: "dispatch a True c b (loaded a s) = cmd_update nr services (loaded a s)"
    unfolding dispatch_def assms(1) by simp
  show ?thesis
    using main_installed [OF assms(3) ch ndc assms(2)] unfolding d .
qed

lemma cmd_update_invalid:
  assumes "services \<noteq> [[]]" and "find (\<lambda>x. x \<notin> set UPDATE_CHOICES) services = Some y"
  shows "cmd_update nr services s = ([Print (''Invalid service: '' @ y)], Inl (Exit 1), s)"
  using assms by (simp add: cmd_update_def seq_def bnd_def validate_services_result)

text \<open>
  Claim C3, as the code has it. If update is given an explicit service list, other than
  the list that consists of one empty name, containing any name outside the update
  allow-list, the whole request is rejected: the process ends with exit code 1, the file
  tree and the settings are unchanged, and beyond the start-up probing nothing is done but
  printing (in the Installed state: the message naming the first invalid service) -- no
  branch read, no pull, no artifact cleanup, no container restart.
\<close>

theorem update_invalid_service_rejected:
  assumes "command a = Update nr services" and "services \<noteq> [[]]"
    and "x \<in> set services" and "x \<notin> set UPDATE_CHOICES"
  shows "exit_code (outcome_of (main a s)) = 1
       \<and> (\<forall>act\<in>set (trace_of (main a s)).
             act \<in> set (trace_of (setup_env s)) \<or> (\<exists>msg. act = Print msg))
       \<and> fs (state_of (main a s)) = fs s
       \<and> settings (state_of (main a s)) = settings s
       \<and> (outcome_of (setup_env s) = Inr () \<and> settings s \<noteq> None \<longrightarrow>
            (\<exists>y\<in>set services. y \<notin> set UPDATE_CHOICES
               \<and> trace_of (main a s) = trace_of (setup_env s) @ [Print (''Invalid service: '' @ y)]
               \<and> outcome_of (main a s) = Inl (Exit 1)))"
proof (cases "outcome_of (setup_env s)")
  case (Inl e)
  show ?thesis
    using Inl setup_env_exit [OF Inl]
    by (simp add: main_setup_fails [OF Inl] setup_env_frame)
next
  case (Inr u)
  then have ok: "outcome_of (setup_env s) = Inr ()" by simp
  have ch: "choices_ok (command a)"
    using assms(1) by (simp add: choices_ok_def)
  show ?thesis
  proof (cases "settings s")
    case None
    have ni: "\<not> is_install (command a)" and ndc: "command a \<noteq> DockerClean"
      using assms(1) by (simp_all add: is_install_def)
    show ?thesis
      using None ok
      by (simp add: main_uninstalled [OF ok ch ndc ni None] setup_env_frame exit_code_def)
  next
    case (Some bc)
    obtain b c where bc: "settings s = Some (b, c)"
      using Some by (cases bc) simp
    from assms(3,4) have "find (\<lambda>x. x \<notin> set UPDATE_CHOICES) services \<noteq> None"
      by (auto simp add: find_None_iff)
    then obtain y where y: "find (\<lambda>x. x \<notin> set UPDATE_CHOICES) services = Some y"
      by auto
    then have yin: "y \<in> set services" and ybad: "y \<notin> set UPDATE_CHOICES"
      by (auto simp add: find_Some_iff)
    show ?thesis
      unfolding main_update [OF assms(1) bc ok] cmd_update_invalid [OF assms(2) y]
      using yin ybad bc ok
      by (auto simp add: exit_code_def loaded_fields)
  qed
qed

theorem update_invalid_service_rejected_witness:
  "trace_of (main \<lparr>debug = False, no_pull = False,
       command = Update False [''counterparty'', ''bitcoin'']\<rparr> installed0) =
     [CheckOutput ''logname'',
      CheckOutput ''sudo -n uptime 2>&1|grep \"load\"|wc -l'',
      Print ''Invalid service: bitcoin'']
   \<and> outcome_of (main \<lparr>debug = False, no_pull = False,
       command = Update False [''counterparty'', ''bitcoin'']\<rparr> installed0) = Inl (Exit 1)"
proof -
  let ?a = "\<lparr>debug = False, no_pull = False, command = Update False [''counterparty'', ''bitcoin'']\<rparr>"
  have 1: "command ?a = Update False [''counterparty'', ''bitcoin'']" by simp
  have 2: "[''counterparty'', ''bitcoin''] \<noteq> [[]]" by simp
  have 3: "''bitcoin'' \<in> set [''counterparty'', ''bitcoin'']" by simp
  have 4: "''bitcoin'' \<notin> set UPDATE_CHOICES" by (simp add: UPDATE_CHOICES_def)
  have 5: "''counterparty'' \<in> set UPDATE_CHOICES" by (simp add: UPDATE_CHOICES_def)
  have ok: "outcome_of (setup_env installed0) = Inr ()"
    by (simp add: setup_env_installed0)
  have st: "settings installed0 \<noteq> None"
    by (simp add: installed0_fields)
  obtain y where y: "y \<in> set [''counterparty'', ''bitcoin'']" "y \<notin> set UPDATE_CHOICES"
    and t: "trace_of (main ?a installed0) = trace_of (setup_env installed0) @ [Print (''Invalid service: '' @ y)]"
    and r: "outcome_of (main ?a installed0) = Inl (Exit 1)"
    using update_invalid_service_rejected [OF 1 2 3 4, of installed0] ok st by blast
  have "y = ''bitcoin''"
    using y 5 by auto
  then show ?thesis
    using t r by (simp add: setup_env_installed0)
qed
lemma replace_empty: "replace [] old new = []"
  by (simp add: replace_def)

theorem update_empty_name_counterexample:
  "[] \<notin> set UPDATE_CHOICES
   \<and> trace_of (main \<lparr>debug = False, no_pull = False, command = Update False [[]]\<rparr> installed0) =
     [CheckOutput ''logname'',
      CheckOutput ''sudo -n uptime 2>&1|grep \"load\"|wc -l'',
      System ''sudo -E docker-compose -f /opt/btc/docker-compose.base.yml -p bitcoinprotocols restart '']
   \<and> outcome_of (main \<lparr>debug = False, no_pull = False, command = Update False [[]]\<rparr> installed0) = Inr ()"
proof -
  let ?a = "\<lparr>debug = False, no_pull = False, command = Update False [[]]\<rparr>"
  have 1: "command ?a = Update False [[]]" by simp
  have ok: "outcome_of (setup_env installed0) = Inr ()"
    by (simp add: setup_env_installed0)
  have 3: "''master'' \<noteq> ([] :: string)" by simp
  have fs: "fs (loaded ?a installed0) = Map.empty" "SCRIPTDIR (loaded ?a installed0) = ''/opt/btc''"
    by (simp_all add: loaded_fields [OF installed0_fields(4)] installed0_fields)
  have src: "update_source [] (loaded ?a installed0) = ([], Inr (), loaded ?a installed0)"
    by (simp add: update_source_def service_dirs_def update_service_dir_def bnd_def seq_def prim_defs
          fs path_exists_def target_def Let_def)
  have "cmd_update False [[]] (loaded ?a installed0) =
          ([System (compose_cmdline installed0 ''base'' ''restart '')], Inr (), loaded ?a installed0)"
    by (simp add: cmd_update_def validate_services_result seq_def bnd_def prim_defs replace_empty
          src run_compose_cmd_loaded [OF ok installed0_fields(4) 3])
  then show ?thesis
    unfolding main_update [OF 1 installed0_fields(4) ok]
    by (simp add: setup_env_installed0 UPDATE_CHOICES_def
          compose_cmdline_sample [OF installed0_fields(1,2)])
qed



subsection \<open>update: the loop\<close>







lemma for_each_cong:
  "(\<And>x. x \<in> set xs \<Longrightarrow> f x = g x) \<Longrightarrow> for_each xs f = for_each xs g"
  by (induction xs) simp_all









subsection \<open>shell\<close>

lemma sudo_after_setup:
  assumes "outcome_of (setup_env s) = Inr ()" and "settings s = Some (b, c)"
  shows "fmt_opt (SUDO_CMD (loaded a s)) = sudo_prefix s"
  using assms by (simp add: loaded_fields setup_env_ok fmt_opt_def sudo_prefix_def)

lemma is_container_running_loaded:
  assumes "outcome_of (setup_env s) = Inr ()" and "settings s = Some (b, c)"
  shows "is_container_running S True (loaded a s) =
     (case check_output s (inspect_cmdline s S) of
        Some out \<Rightarrow> ([CheckOutput (inspect_cmdline s S)], Inr (Some (strip out = ''true'')), loaded a s)
      | None \<Rightarrow> ([CheckOutput (inspect_cmdline s S),
                   Print (''Container '' @ S @ '' doesn't seem to exist'' @ [CHR 0x27])],
                  Inl (Exit 1), loaded a s))"
proof -
  have co: "check_output (loaded a s) = check_output s"
    using assms(2) by (simp add: loaded_fields)
  show ?thesis
    by (simp add: is_container_running_def bnd_def seq_def prim_defs Let_def
        sudo_after_setup [OF assms] co inspect_cmdline_def split: option.splits)
qed

lemma cmd_shell_loaded:
  assumes "outcome_of (setup_env s) = Inr ()" and "settings s = Some (b, c)" and "b \<noteq> []"
  shows "cmd_shell S (loaded a s) =
     (case check_output s (inspect_cmdline s S) of
        Some out \<Rightarrow>
          if strip out = ''true'' then
            ([CheckOutput (inspect_cmdline s S), System (exec_bash_cmdline s S)], Inr (), loaded a s)
          else
            ([CheckOutput (inspect_cmdline s S),
              Print ''Container is not running -- creating a transient container with a 'bash' shell entrypoint...'',
              System (compose_cmdline s c (''run --no-deps --rm --entrypoint bash '' @ S))],
             Inr (), loaded a s)
      | None \<Rightarrow> ([CheckOutput (inspect_cmdline s S),
                   Print (''Container '' @ S @ '' doesn't seem to exist'' @ [CHR 0x27])],
                  Inl (Exit 1), loaded a s))"
  by (simp add: cmd_shell_def bnd_def seq_def prim_defs
        is_container_running_loaded [OF assms(1,2)]
        run_compose_cmd_loaded [OF assms] sudo_after_setup [OF assms(1,2)]
        exec_bash_cmdline_def split: option.splits)

lemma main_shell:
  assumes "command a = Shell S" and "S \<in> set SHELL_CHOICES"
    and "settings s = Some (b, c)" and "outcome_of (setup_env s) = Inr ()"
  shows "main a s = (trace_of (setup_env s) @ trace_of (cmd_shell S (loaded a s)),
                     outcome_of (cmd_shell S (loaded a s)), state_of (cmd_shell S (loaded a s)))"
proof -
  have ch: "choices_ok (command a)"
    using assms(1,2) by (simp add: choices_ok_def)
  have ndc: "command a \<noteq> DockerClean"
    using assms(1) by simp
  have d: "dispatch a True c b (loaded a s) = cmd_shell S (loaded a s)"
    unfolding dispatch_def assms(1) by simp
  show ?thesis
    using main_installed [OF assms(4) ch ndc assms(3)] unfolding d .
qed

text \<open>
  Claim C8, as the code has it. In the Installed state, for a service \<open>S\<close> of the shell
  allow-list, \<open>shell S\<close> first reads the container state with \<open>docker inspect\<close>. If the
  container is running it execs an interactive \<open>bash\<close> inside it. If the container exists
  and is not running, it falls back to a transient container: a one-shot
  \<open>run --no-deps --rm --entrypoint bash S\<close>. If the container does not exist (the inspect
  command fails), it prints a message and ends with exit code 1: no fallback.
\<close>

theorem shell_exec_or_transient:
  assumes "command a = Shell S" and "S \<in> set SHELL_CHOICES"
    and "settings s = Some (b, c)" and "b \<noteq> []"
    and "outcome_of (setup_env s) = Inr ()"
  shows "(\<forall>out. check_output s (inspect_cmdline s S) = Some out \<and> strip out = ''true'' \<longrightarrow>
            trace_of (main a s) = trace_of (setup_env s) @
              [CheckOutput (inspect_cmdline s S), System (exec_bash_cmdline s S)]
            \<and> outcome_of (main a s) = Inr ())
       \<and> (\<forall>out. check_output s (inspect_cmdline s S) = Some out \<and> strip out \<noteq> ''true'' \<longrightarrow>
            trace_of (main a s) = trace_of (setup_env s) @
              [CheckOutput (inspect_cmdline s S),
               Print ''Container is not running -- creating a transient container with a 'bash' shell entrypoint...'',
               System (compose_cmdline s c (''run --no-deps --rm --entrypoint bash '' @ S))]
            \<and> outcome_of (main a s) = Inr ())
       \<and> (check_output s (inspect_cmdline s S) = None \<longrightarrow>
            trace_of (main a s) = trace_of (setup_env s) @
              [CheckOutput (inspect_cmdline s S),
               Print (''Container '' @ S @ '' doesn't seem to exist'' @ [CHR 0x27])]
            \<and> outcome_of (main a s) = Inl (Exit 1))"
  unfolding main_shell [OF assms(1,2,3,5)] cmd_shell_loaded [OF assms(5,3,4)]
  by simp

lemma installed_stopped_fields:
  "os_name installed_stopped = ''posix''" "euid installed_stopped = 1000"
  "SCRIPTDIR installed_stopped = ''/opt/btc''"
  "settings installed_stopped = Some (''master'', ''base'')"
  "check_output installed_stopped ''logname'' = Some (''alice'' @ [CHR 0x0A])"
  "check_output installed_stopped ''sudo -n uptime 2>&1|grep \"load\"|wc -l'' = Some (''1'' @ [CHR 0x0A])"
  "check_output installed_stopped
     ''sudo -E docker inspect --format=\"{{ .State.Running }}\" bitcoinprotocols_counterparty_1''
     = Some (''false'' @ [CHR 0x0A])"
  by (simp_all add: installed_stopped_def installed0_def host0_def)

lemma setup_env_installed_stopped:
  "setup_env installed_stopped =
     ([CheckOutput ''logname'', CheckOutput ''sudo -n uptime 2>&1|grep \"load\"|wc -l''], Inr (),
      installed_stopped\<lparr>IS_WINDOWS := Some False, SESSION_USER := Some ''alice'', SUDO_CMD := Some ''sudo -E''\<rparr>)"
  by (rule setup_env_sample) (simp_all only: installed_stopped_fields)

lemma inspect_cmdline_sample:
  "os_name s = ''posix'' \<Longrightarrow> inspect_cmdline s ''counterparty'' =
     ''sudo -E docker inspect --format=\"{{ .State.Running }}\" bitcoinprotocols_counterparty_1''"
  by (simp add: inspect_cmdline_def sudo_prefix_def)

lemma strip_false: "strip (''false'' @ [CHR 0x0A]) = ''false''"
  by (simp add: strip_def isspace_def)

theorem shell_exec_or_transient_witness:
  "trace_of (main \<lparr>debug = False, no_pull = False, command = Shell ''counterparty''\<rparr> installed_stopped) =
     [CheckOutput ''logname'',
      CheckOutput ''sudo -n uptime 2>&1|grep \"load\"|wc -l'',
      CheckOutput ''sudo -E docker inspect --format=\"{{ .State.Running }}\" bitcoinprotocols_counterparty_1'',
      Print ''Container is not running -- creating a transient container with a 'bash' shell entrypoint...'',
      System ''sudo -E docker-compose -f /opt/btc/docker-compose.base.yml -p bitcoinprotocols run --no-deps --rm --entrypoint bash counterparty'']
   \<and> outcome_of (main \<lparr>debug = False, no_pull = False, command = Shell ''counterparty''\<rparr> installed_stopped) = Inr ()"
proof -
  let ?a = "\<lparr>debug = False, no_pull = False, command = Shell ''counterparty''\<rparr>"
  have 1: "command ?a = Shell ''counterparty''" by simp
  have 2: "''counterparty'' \<in> set SHELL_CHOICES" by (simp add: SHELL_CHOICES_def UPDATE_CHOICES_def)
  have 3: "''master'' \<noteq> ([] :: string)" by simp
  have 4: "outcome_of (setup_env installed_stopped) = Inr ()"
    by (simp add: setup_env_installed_stopped)
  have 5: "check_output installed_stopped (inspect_cmdline installed_stopped ''counterparty'')
             = Some (''false'' @ [CHR 0x0A]) \<and> strip (''false'' @ [CHR 0x0A]) \<noteq> ''true''"
    unfolding strip_false inspect_cmdline_sample [OF installed_stopped_fields(1)]
    using installed_stopped_fields(7) by simp
  have "trace_of (main ?a installed_stopped) = trace_of (setup_env installed_stopped) @
              [CheckOutput (inspect_cmdline installed_stopped ''counterparty''),
               Print ''Container is not running -- creating a transient container with a 'bash' shell entrypoint...'',
               System (compose_cmdline installed_stopped ''base'' (''run --no-deps --rm --entrypoint bash '' @ ''counterparty''))]
            \<and> outcome_of (main ?a installed_stopped) = Inr ()"
    using shell_exec_or_transient [OF 1 2 installed_stopped_fields(4) 3 4] 5 by blast
  then show ?thesis
    unfolding inspect_cmdline_sample [OF installed_stopped_fields(1)]
      compose_cmdline_sample [OF installed_stopped_fields(1,3)] setup_env_installed_stopped
    by simp
qed

theorem shell_missing_container_counterexample:
  "check_output installed0
     ''sudo -E docker inspect --format=\"{{ .State.Running }}\" bitcoinprotocols_counterparty_1'' = None
   \<and> trace_of (main \<lparr>debug = False, no_pull = False, command = Shell ''counterparty''\<rparr> installed0) =
     [CheckOutput ''logname'',
      CheckOutput ''sudo -n uptime 2>&1|grep \"load\"|wc -l'',
      CheckOutput ''sudo -E docker inspect --format=\"{{ .State.Running }}\" bitcoinprotocols_counterparty_1'',
      Print (''Container counterparty doesn't seem to exist'' @ [CHR 0x27])]
   \<and> outcome_of (main \<lparr>debug = False, no_pull = False, command = Shell ''counterparty''\<rparr> installed0) = Inl (Exit 1)"
proof -
  let ?a = "\<lparr>debug = False, no_pull = False, command = Shell ''counterparty''\<rparr>"
  have 1: "command ?a = Shell ''counterparty''" by simp
  have 2: "''counterparty'' \<in> set SHELL_CHOICES" by (simp add: SHELL_CHOICES_def UPDATE_CHOICES_def)
  have 3: "''master'' \<noteq> ([] :: string)" by simp
  have 4: "outcome_of (setup_env installed0) = Inr ()"
    by (simp add: setup_env_installed0)
  have 5: "check_output installed0
     ''sudo -E docker inspect --format=\"{{ .State.Running }}\" bitcoinprotocols_counterparty_1'' = None"
    by (simp add: installed0_def host0_def)
  have 6: "cmd_shell ''counterparty'' (loaded ?a installed0) =
     ([CheckOutput ''sudo -E docker inspect --format=\"{{ .State.Running }}\" bitcoinprotocols_counterparty_1'',
       Print (''Container counterparty doesn't seem to exist'' @ [CHR 0x27])],
      Inl (Exit 1), loaded ?a installed0)"
    unfolding cmd_shell_loaded [OF 4 installed0_fields(4) 3]
      inspect_cmdline_sample [OF installed0_fields(1)] 5
    by simp
  show ?thesis
    unfolding main_shell [OF 1 2 installed0_fields(4) 4] 6 setup_env_installed0
    using 5 by simp
qed

subsection \<open>rollback\<close>

text \<open>
  Claim C9. In the Installed state (settings present, with a non-empty branch as install
  writes it) and once start-up has succeeded, \<open>rollback B S\<close> for a service of the rollback
  allow-list issues exactly two orchestration-engine invocations after the start-up probes,
  in this order: a stop of \<open>S\<close>, then a one-shot run of \<open>S\<close> carrying the mode string
  \<open>rollback B\<close>. Start-up itself runs no orchestration-engine command.
\<close>

theorem rollback_stop_then_run:
  assumes "command a = Rollback B S" and "S \<in> set ROLLBACK_CHOICES"
    and "settings s = Some (b, c)" and "b \<noteq> []"
    and "outcome_of (setup_env s) = Inr ()"
  shows "trace_of (main a s) = trace_of (setup_env s) @
           [System (compose_cmdline s c (''stop '' @ S)),
            System (compose_cmdline s c (''run -e COMMAND='rollback '' @ B @ [CHR 0x27] @ '' '' @ S))]
       \<and> outcome_of (main a s) = Inr ()
       \<and> (\<forall>cmd. System cmd \<in> set (trace_of (setup_env s))
             \<longrightarrow> cmd = ''bash -c 'sudo whoami > /dev/null'' @ [CHR 0x27])"
proof -
  have ch: "choices_ok (command a)"
    using assms(1,2) by (simp add: choices_ok_def)
  have ndc: "command a \<noteq> DockerClean"
    using assms(1) by simp
  have run: "run_compose_cmd cmd (loaded a s) = ([System (compose_cmdline s c cmd)], Inr (), loaded a s)" for cmd
    by (rule run_compose_cmd_loaded [OF assms(5,3,4)])
  have d: "dispatch a True c b (loaded a s) =
          ([System (compose_cmdline s c (''stop '' @ S)),
            System (compose_cmdline s c (''run -e COMMAND='rollback '' @ B @ [CHR 0x27] @ '' '' @ S))],
           Inr (), loaded a s)"
    unfolding dispatch_def assms(1) by (simp add: seq_def bnd_def run)
  have m: "main a s = (trace_of (setup_env s) @ trace_of (dispatch a True c b (loaded a s)),
                     outcome_of (dispatch a True c b (loaded a s)),
                     state_of (dispatch a True c b (loaded a s)))"
    by (rule main_installed [OF assms(5) ch ndc assms(3)])
  have "trace_of (main a s) = trace_of (setup_env s) @
           [System (compose_cmdline s c (''stop '' @ S)),
            System (compose_cmdline s c (''run -e COMMAND='rollback '' @ B @ [CHR 0x27] @ '' '' @ S))]"
    unfolding m d by simp
  moreover have "outcome_of (main a s) = Inr ()"
    unfolding m d by simp
  ultimately show ?thesis
    using setup_env_system by blast
qed

theorem rollback_stop_then_run_witness:
  "trace_of (main \<lparr>debug = False, no_pull = False, command = Rollback ''450000'' ''counterparty''\<rparr> installed0) =
     [CheckOutput ''logname'',
      CheckOutput ''sudo -n uptime 2>&1|grep \"load\"|wc -l'',
      System ''sudo -E docker-compose -f /opt/btc/docker-compose.base.yml -p bitcoinprotocols stop counterparty'',
      System ''sudo -E docker-compose -f /opt/btc/docker-compose.base.yml -p bitcoinprotocols run -e COMMAND='rollback 450000' counterparty'']
   \<and> outcome_of (main \<lparr>debug = False, no_pull = False, command = Rollback ''450000'' ''counterparty''\<rparr> installed0) = Inr ()"
  using rollback_stop_then_run [of "\<lparr>debug = False, no_pull = False, command = Rollback ''450000'' ''counterparty''\<rparr>"
      "''450000''" "''counterparty''" installed0 "''master''" "''base''"]
  by (simp add: setup_env_installed0 ROLLBACK_CHOICES_def compose_cmdline_sample installed0_fields)

lemma check_ports_outcome:
  assumes "HOST_PORTS_USED c = Some ports"
  shows "outcome_of (check_ports c s) =
           (if \<exists>p\<in>set ports. port_bound s p then Inl (Exit 1) else Inr ())"
proof (cases "find (port_bound s) ports")
  case None
  then have n: "\<forall>x\<in>set ports. \<not> port_bound s x"
    by (simp add: find_None_iff)
  show ?thesis
    unfolding check_ports_result [OF assms] None using n by simp
next
  case (Some q)
  then have q: "q \<in> set ports \<and> port_bound s q"
    by (auto simp add: find_Some_iff)
  show ?thesis
    unfolding check_ports_result [OF assms] Some using q by auto
qed

lemma check_ports_trace:
  assumes "HOST_PORTS_USED c = Some ports" and "x \<in> set (trace_of (check_ports c s))"
  shows "(\<exists>p\<in>set ports. x = Connect ''127.0.0.1'' p) \<or> (\<exists>p\<in>set ports. x = Print (port_msg p))"
  using assms(2) unfolding check_ports_result [OF assms(1)]
  by (auto simp add: find_Some_iff split: option.splits dest: set_takeWhileD)

lemma check_ports_other_hosts:
  assumes "HOST_PORTS_USED c = Some ports" and "f ''127.0.0.1'' = connect_ex s ''127.0.0.1''"
  shows "trace_of (check_ports c (s\<lparr>connect_ex := f\<rparr>)) = trace_of (check_ports c s)"
    and "outcome_of (check_ports c (s\<lparr>connect_ex := f\<rparr>)) = outcome_of (check_ports c s)"
proof -
  have pb: "port_bound (s\<lparr>connect_ex := f\<rparr>) = port_bound s"
    using assms(2) by (simp add: port_bound_def fun_eq_iff)
  show "trace_of (check_ports c (s\<lparr>connect_ex := f\<rparr>)) = trace_of (check_ports c s)"
    unfolding check_ports_result [OF assms(1)] pb by (simp split: option.splits)
  show "outcome_of (check_ports c (s\<lparr>connect_ex := f\<rparr>)) = outcome_of (check_ports c s)"
    unfolding check_ports_result [OF assms(1)] pb by (simp split: option.splits)
qed

text \<open>
  Claim C10. The port check of install probes a port only by a TCP connection attempt to
  127.0.0.1, and a port counts as bound exactly when that attempt succeeds: the check ends
  the process with exit code 1 exactly when some required port accepts a connection on
  127.0.0.1, and passes exactly when none does; every connection it attempts is to
  127.0.0.1 and to a required port; what connections to any other address would do has no
  influence on it. So with no required port reachable on 127.0.0.1 (whatever listens on
  other interfaces), install in the Uninstalled state goes on past the check to cloning.
\<close>

theorem port_check_loopback_only:
  assumes "HOST_PORTS_USED c = Some ports"
  shows "is_port_open p s = ([Connect ''127.0.0.1'' p], Inr (connect_ex s ''127.0.0.1'' p = 0), s)
       \<and> (outcome_of (check_ports c s) = Inl (Exit 1)
             \<longleftrightarrow> (\<exists>p\<in>set ports. connect_ex s ''127.0.0.1'' p = 0))
       \<and> (outcome_of (check_ports c s) = Inr ()
             \<longleftrightarrow> (\<forall>p\<in>set ports. connect_ex s ''127.0.0.1'' p \<noteq> 0))
       \<and> (\<forall>host port. Connect host port \<in> set (trace_of (check_ports c s))
             \<longrightarrow> host = ''127.0.0.1'' \<and> port \<in> set ports)
       \<and> (\<forall>f. f ''127.0.0.1'' = connect_ex s ''127.0.0.1'' \<longrightarrow>
             trace_of (check_ports c (s\<lparr>connect_ex := f\<rparr>)) = trace_of (check_ports c s)
             \<and> outcome_of (check_ports c (s\<lparr>connect_ex := f\<rparr>)) = outcome_of (check_ports c s))
       \<and> (settings s = None \<and> command a = Install c b u i n \<and> choices_ok (command a)
            \<and> outcome_of (setup_env s) = Inr ()
            \<and> (\<forall>p\<in>set ports. connect_ex s ''127.0.0.1'' p \<noteq> 0) \<longrightarrow>
            main a s =
              (trace_of (setup_env s) @ map (Connect ''127.0.0.1'') ports
                 @ trace_of (install_after_ports c b u (\<not> no_pull a) (installing a b c s)),
               outcome_of (install_after_ports c b u (\<not> no_pull a) (installing a b c s)),
               state_of (install_after_ports c b u (\<not> no_pull a) (installing a b c s))))"
proof (intro conjI)
  show "is_port_open p s = ([Connect ''127.0.0.1'' p], Inr (connect_ex s ''127.0.0.1'' p = 0), s)"
    by (simp add: is_port_open_def)
  show "outcome_of (check_ports c s) = Inl (Exit 1)
          \<longleftrightarrow> (\<exists>p\<in>set ports. connect_ex s ''127.0.0.1'' p = 0)"
    by (simp add: check_ports_outcome [OF assms] port_bound_def)
  show "outcome_of (check_ports c s) = Inr ()
          \<longleftrightarrow> (\<forall>p\<in>set ports. connect_ex s ''127.0.0.1'' p \<noteq> 0)"
    by (simp add: check_ports_outcome [OF assms] port_bound_def)
  show "\<forall>host port. Connect host port \<in> set (trace_of (check_ports c s))
             \<longrightarrow> host = ''127.0.0.1'' \<and> port \<in> set ports"
    using check_ports_trace [OF assms] by blast
  show "\<forall>f. f ''127.0.0.1'' = connect_ex s ''127.0.0.1'' \<longrightarrow>
             trace_of (check_ports c (s\<lparr>connect_ex := f\<rparr>)) = trace_of (check_ports c s)
             \<and> outcome_of (check_ports c (s\<lparr>connect_ex := f\<rparr>)) = outcome_of (check_ports c s)"
    using check_ports_other_hosts [OF assms] by blast
  show "settings s = None \<and> command a = Install c b u i n \<and> choices_ok (command a)
            \<and> outcome_of (setup_env s) = Inr ()
            \<and> (\<forall>p\<in>set ports. connect_ex s ''127.0.0.1'' p \<noteq> 0) \<longrightarrow>
            main a s =
              (trace_of (setup_env s) @ map (Connect ''127.0.0.1'') ports
                 @ trace_of (install_after_ports c b u (\<not> no_pull a) (installing a b c s)),
               outcome_of (install_after_ports c b u (\<not> no_pull a) (installing a b c s)),
               state_of (install_after_ports c b u (\<not> no_pull a) (installing a b c s)))"
  proof (intro impI, elim conjE)
    assume h: "settings s = None" "command a = Install c b u i n" "choices_ok (command a)"
      "outcome_of (setup_env s) = Inr ()" "\<forall>p\<in>set ports. connect_ex s ''127.0.0.1'' p \<noteq> 0"
    have f: "find (port_bound s) ports = None"
      using h(5) by (simp add: find_None_iff port_bound_def)
    show "main a s =
              (trace_of (setup_env s) @ map (Connect ''127.0.0.1'') ports
                 @ trace_of (install_after_ports c b u (\<not> no_pull a) (installing a b c s)),
               outcome_of (install_after_ports c b u (\<not> no_pull a) (installing a b c s)),
               state_of (install_after_ports c b u (\<not> no_pull a) (installing a b c s)))"
      by (rule main_install_ports_free [OF h(4,2,3,1) assms f])
  qed
qed

lemma host_lan_listener_fields:
  "os_name host_lan_listener = ''posix''" "euid host_lan_listener = 1000"
  "settings host_lan_listener = None"
  "connect_ex host_lan_listener ''192.168.1.10'' 8332 = 0"
  "connect_ex host_lan_listener ''127.0.0.1'' = (\<lambda>port. 111)"
  by (simp_all add: host_lan_listener_def host0_def fun_eq_iff)

theorem port_check_loopback_only_witness:
  "connect_ex host_lan_listener ''192.168.1.10'' 8332 = 0
   \<and> check_ports ''base'' host_lan_listener =
       (map (Connect ''127.0.0.1'') [8332, 18332, 8432, 18432, 4000, 14000, 8097, 18097, 8098, 18098],
        Inr (), host_lan_listener)"
proof -
  have 1: "\<forall>p\<in>set [8332, 18332, 8432, 18432, 4000, 14000, 8097, 18097, 8098, 18098 :: nat].
             connect_ex host_lan_listener ''127.0.0.1'' p \<noteq> 0"
    by (simp add: host_lan_listener_fields)
  have 2: "outcome_of (check_ports ''base'' host_lan_listener) = Inr ()"
    using port_check_loopback_only [OF ports_base, of 0 host_lan_listener] 1 by blast
  have 3: "find (port_bound host_lan_listener)
             [8332, 18332, 8432, 18432, 4000, 14000, 8097, 18097, 8098, 18098] = None"
    using 1 by (simp add: find_None_iff port_bound_def)
  show ?thesis
    using 2 unfolding check_ports_result [OF ports_base] 3
    by (simp add: host_lan_listener_fields)
qed

end
